theory Spec2Isabelle
  imports Complex_Main "HOL-Library.Sublist" "HOL-Library.AList"
begin

section \<open>JavaScript values used by the image tool\<close>

text \<open>
  Strings are \<^typ>\<open>string\<close>: one \<^typ>\<open>char\<close> per UTF-16 code unit, for code units
  below 256. Numbers that the browser reports as integers (\<open>clientWidth\<close>,
  \<open>naturalWidth\<close>) are \<^typ>\<open>int\<close> and \<^typ>\<open>nat\<close>; the fractional coordinates of
  a bounding rectangle and of the pointer are \<^typ>\<open>rat\<close> (the rounding of doubles is
  not modelled). A quotient that JavaScript may answer with \<open>Infinity\<close> or \<open>NaN\<close> is a
  \<open>jsnumber\<close>.
\<close>

datatype jsnumber = Num rat | PosInfinity | NaN

datatype error = TypeError

datatype outcome = Returned | Threw error

text \<open>\<open>a / b\<close> where both operands are properties holding non-negative integers, or are
  \<open>undefined\<close> (\<open>None\<close>) when the object has no such property.\<close>

definition js_div :: "nat option \<Rightarrow> nat option \<Rightarrow> jsnumber" where
  "js_div a b =
     (case a of
        None \<Rightarrow> NaN
      | Some h \<Rightarrow>
          (case b of
             None \<Rightarrow> NaN
           | Some w \<Rightarrow>
               (if w = 0 then (if h = 0 then NaN else PosInfinity)
                else Num (of_nat h / of_nat w))))"

text \<open>White space and line terminators of ECMAScript, among the code units below 256.\<close>

definition isWhiteSpace :: "char \<Rightarrow> bool" where
  "isWhiteSpace c \<longleftrightarrow>
     c \<in> set [CHR 0x09, CHR 0x0A, CHR 0x0B, CHR 0x0C, CHR 0x0D, CHR 0x20, CHR 0xA0]"

definition trim :: "string \<Rightarrow> string" where
  "trim s = rev (dropWhile isWhiteSpace (rev (dropWhile isWhiteSpace s)))"

definition isDigit :: "char \<Rightarrow> bool" where
  "isDigit c \<longleftrightarrow> 48 \<le> (of_char c :: nat) \<and> (of_char c :: nat) \<le> 57"

definition digitVal :: "char \<Rightarrow> nat" where
  "digitVal c = of_char c - 48"

text \<open>\<open>parseInt(s, 10)\<close>: leading white space is skipped, one sign is read, then the
  longest run of decimal digits; \<open>None\<close> is \<open>NaN\<close>.\<close>

definition parseInt :: "string \<Rightarrow> int option" where
  "parseInt s =
     (let S = dropWhile isWhiteSpace s;
          sign = (case S of [] \<Rightarrow> 1 | c # _ \<Rightarrow> (if c = CHR ''-'' then - 1 else (1::int)));
          S' = (case S of [] \<Rightarrow> S | c # r \<Rightarrow> (if c = CHR ''+'' \<or> c = CHR ''-'' then r else S));
          Z = takeWhile isDigit S'
      in if Z = [] then None
         else Some (sign * int (foldl (\<lambda>a c. 10 * a + digitVal c) 0 Z)))"

text \<open>\<open>String(n)\<close> for an integer \<open>n\<close>: its decimal numeral.\<close>

definition digitChar :: "nat \<Rightarrow> char" where
  "digitChar d = ''0123456789'' ! d"

function digits :: "nat \<Rightarrow> string" where
  "digits n = (if n < 10 then [digitChar n] else digits (n div 10) @ [digitChar (n mod 10)])"
  by pat_completeness auto
termination
  by (relation "measure (\<lambda>n. n)") auto

declare digits.simps [simp del]

definition String :: "int \<Rightarrow> string" where
  "String n = (if n < 0 then CHR ''-'' # digits (nat (- n)) else digits (nat n))"

text \<open>The test \<open>/\.mp4$/.test(url)\<close>: without the multiline flag \<open>$\<close> matches at the end
  of the input only, so the last four code units have to be \<open>.mp4\<close>.\<close>

definition mp4_test :: "string \<Rightarrow> bool" where
  "mp4_test url \<longleftrightarrow> 4 \<le> length url \<and> drop (length url - 4) url = ''.mp4''"


section \<open>The document\<close>

text \<open>
  Elements live in a store indexed by references; \<open>fresh\<close> is the next reference to
  be handed out, to elements and to closures alike, so that two closures made by two
  evaluations of the same function expression are different objects.
\<close>

datatype propval = PStr string | PBool bool

text \<open>A style value: a text, or the template \<open>`${n}px`\<close> kept as its number.\<close>

datatype cssval = CssText string | CssPx rat

datatype align = AlignLeft | AlignRight

fun align_name :: "align \<Rightarrow> string" where
  "align_name AlignLeft = ''left''"
| "align_name AlignRight = ''right''"

text \<open>The function objects of \<open>ui.ts\<close> that are registered as listeners, each with the
  variables it captured.\<close>

datatype closure =
    ImageLoadHandler string "string option"
  | ImageErrorHandler string
  | FileButtonHandler
  | MouseDownHandler align
  | OnMouseMove align
  | OnMouseUp nat align

type_synonym handler = "nat \<times> closure"

record DOMRect =
  rect_left :: rat
  rect_right :: rat
  rect_width :: rat

record element =
  tagName :: string
  classList :: "string list"
  props :: "(string \<times> propval) list"
  style :: "string \<Rightarrow> cssval"
  children :: "nat list"
  parentNode :: "nat option"
  listeners :: "(string \<times> handler) list"
  textContent :: "string option"
  clientWidth :: int
  clientHeight :: int
  boundingClientRect :: DOMRect
  naturalWidth :: "nat option"
  naturalHeight :: "nat option"
  videoWidth :: "nat option"
  videoHeight :: "nat option"

record DOM =
  store :: "nat \<Rightarrow> element"
  fresh :: nat
  documentListeners :: "(string \<times> handler) list"

subsection \<open>The state of the presentation component (ui.ts)\<close>

datatype UiState = Empty | Uploading | Filled

fun UiState_value :: "UiState \<Rightarrow> string" where
  "UiState_value Empty = ''empty''"
| "UiState_value Uploading = ''uploading''"
| "UiState_value Filled = ''filled''"

text \<open>The interface \<open>Nodes\<close>; its field \<open>caption\<close> is \<open>caption_node\<close> here, the name
  \<open>caption\<close> being the field of the block data.\<close>

record Nodes =
  wrapper :: nat
  imageContainer :: nat
  fileButton :: nat
  imageEl :: "nat option"
  imagePreloader :: nat
  caption_node :: nat

text \<open>What the tool uses of the editor's API (translation and class names), and the
  constant \<open>IconPicture\<close> of the icons package.\<close>

record API =
  i18n_t :: "string \<Rightarrow> string"
  styles_block :: string
  styles_loader :: string
  styles_input :: string
  styles_button :: string
  IconPicture :: string

text \<open>The fields of \<open>ImageConfig\<close> that \<open>index.ts\<close> and \<open>ui.ts\<close> read; the others
  (endpoints, request data and headers, types, field, uploader, actions) are handed to
  the uploader untouched.\<close>

record ImageConfig =
  captionPlaceholder :: "string option"
  buttonContent :: "string option"
  showCaption :: "bool option"

record Ui =
  nodes :: Nodes
  api :: API
  isResizing :: bool
  config :: ImageConfig
  readOnly :: bool
  contentRatio :: jsnumber
  imageLoadHandler :: "handler option"
  imageErrorHandler :: "handler option"
  fileButtonHandler :: "handler option"
  resizeHandlers :: "(nat \<times> handler) list"
  dom :: DOM

subsection \<open>The block data and the upload response (types/types.ts)\<close>

text \<open>
  Modelled from the spec: the declarations of \<open>types/types.ts\<close> are not among the
  sources. The file object has a \<open>url\<close> and any further fields of the backend; the
  block data has \<open>file\<close>, \<open>caption\<close>, \<open>width\<close> and \<open>height\<close>; the response has
  \<open>success\<close> and \<open>file\<close>. A field that may be missing at run time is an option
  (the editor hands \<open>{}\<close> to a new block). The field \<open>file\<close> is written \<open>file'\<close>.
\<close>

record FileData =
  url :: "string option"
  extra :: "(string \<times> string) list"

record ImageToolData =
  caption :: "string option"
  height :: "string option"
  width :: "string option"
  file' :: "FileData option"

record UploadResponseFormat =
  success :: int
  response_file :: "FileData option"

subsection \<open>The state of the coordinator (index.ts)\<close>

text \<open>
  The tool's \<open>api\<close> and \<open>config\<close> are the very objects its \<open>Ui\<close> holds, and its
  \<open>readOnly\<close> is the same constructor argument, never assigned again: they are read
  through \<open>ui\<close>. \<open>notifications\<close> is what \<open>api.notifier.show\<close> has been given
  (message and style).
\<close>

record ImageTool =
  ui :: Ui
  data :: ImageToolData
  notifications :: "(string \<times> string) list"

subsection \<open>Operations of the document\<close>

text \<open>\<open>document.createElement(tagName)\<close>: only an image element has natural
  dimensions, only a video element has video dimensions.\<close>

definition createElement :: "string \<Rightarrow> element" where
  "createElement tag =
     \<lparr>tagName = tag, classList = [], props = [], style = (\<lambda>_. CssText []),
      children = [], parentNode = None, listeners = [], textContent = Some [],
      clientWidth = 0, clientHeight = 0,
      boundingClientRect = \<lparr>rect_left = 0, rect_right = 0, rect_width = 0\<rparr>,
      naturalWidth = (if tag = ''IMG'' then Some 0 else None),
      naturalHeight = (if tag = ''IMG'' then Some 0 else None),
      videoWidth = (if tag = ''VIDEO'' then Some 0 else None),
      videoHeight = (if tag = ''VIDEO'' then Some 0 else None)\<rparr>"

definition upd :: "nat \<Rightarrow> (element \<Rightarrow> element) \<Rightarrow> DOM \<Rightarrow> DOM" where
  "upd r f d = d\<lparr>store := (store d)(r := f (store d r))\<rparr>"

fun classList_add :: "string list \<Rightarrow> string list \<Rightarrow> string list" where
  "classList_add cs [] = cs"
| "classList_add cs (c # rest) = classList_add (if c \<in> set cs then cs else cs @ [c]) rest"

definition classList_toggle :: "string \<Rightarrow> bool \<Rightarrow> string list \<Rightarrow> string list" where
  "classList_toggle c force cs = (if force then classList_add cs [c] else removeAll c cs)"

definition addEventListener :: "nat \<Rightarrow> string \<Rightarrow> handler \<Rightarrow> DOM \<Rightarrow> DOM" where
  "addEventListener r ev h d =
     upd r (\<lambda>e. e\<lparr>listeners :=
       (if (ev, h) \<in> set (listeners e) then listeners e else listeners e @ [(ev, h)])\<rparr>) d"

definition removeEventListener :: "nat \<Rightarrow> string \<Rightarrow> handler \<Rightarrow> DOM \<Rightarrow> DOM" where
  "removeEventListener r ev h d = upd r (\<lambda>e. e\<lparr>listeners := removeAll (ev, h) (listeners e)\<rparr>) d"

definition appendChild :: "nat \<Rightarrow> nat \<Rightarrow> DOM \<Rightarrow> DOM" where
  "appendChild p c d =
     (let d1 = (case parentNode (store d c) of
                  None \<Rightarrow> d
                | Some q \<Rightarrow> upd q (\<lambda>e. e\<lparr>children := removeAll c (children e)\<rparr>) d);
          d2 = upd p (\<lambda>e. e\<lparr>children := children e @ [c]\<rparr>) d1
      in upd c (\<lambda>e. e\<lparr>parentNode := Some p\<rparr>) d2)"

text \<open>\<open>removeChild\<close> is only ever called on the parent that the child reports, so its
  \<open>NotFoundError\<close> is not a branch here.\<close>

definition removeChild :: "nat \<Rightarrow> nat \<Rightarrow> DOM \<Rightarrow> DOM" where
  "removeChild p c d =
     upd c (\<lambda>e. e\<lparr>parentNode := None\<rparr>)
       (upd p (\<lambda>e. e\<lparr>children := removeAll c (children e)\<rparr>) d)"

definition setStyle :: "nat \<Rightarrow> string \<Rightarrow> cssval \<Rightarrow> DOM \<Rightarrow> DOM" where
  "setStyle r k v d = upd r (\<lambda>e. e\<lparr>style := (style e)(k := v)\<rparr>) d"

definition setProp :: "nat \<Rightarrow> string \<Rightarrow> propval \<Rightarrow> DOM \<Rightarrow> DOM" where
  "setProp r k v d = upd r (\<lambda>e. e\<lparr>props := AList.update k v (props e)\<rparr>) d"

text \<open>A new object takes the next free reference: an element is put in the store, a
  closure only takes the reference.\<close>

definition insertElement :: "element \<Rightarrow> DOM \<Rightarrow> DOM" where
  "insertElement el d = d\<lparr>store := (store d)(fresh d := el), fresh := Suc (fresh d)\<rparr>"

definition reserve :: "DOM \<Rightarrow> DOM" where
  "reserve d = d\<lparr>fresh := Suc (fresh d)\<rparr>"

text \<open>\<open>el.classList.add(c)\<close>, \<open>el.classList.toggle(c, force)\<close> and
  \<open>el.textContent = s\<close>.\<close>

definition addClass :: "nat \<Rightarrow> string \<Rightarrow> DOM \<Rightarrow> DOM" where
  "addClass r c d = upd r (\<lambda>e. e\<lparr>classList := classList_add (classList e) [c]\<rparr>) d"

definition toggleClass :: "nat \<Rightarrow> string \<Rightarrow> bool \<Rightarrow> DOM \<Rightarrow> DOM" where
  "toggleClass r c force d = upd r (\<lambda>e. e\<lparr>classList := classList_toggle c force (classList e)\<rparr>) d"

definition setTextContent :: "nat \<Rightarrow> string \<Rightarrow> DOM \<Rightarrow> DOM" where
  "setTextContent r s d = upd r (\<lambda>e. e\<lparr>textContent := Some s\<rparr>) d"

text \<open>What the browser does on its own: it lays an element out, and it learns the
  intrinsic size of an image or of a video.\<close>

definition layout :: "nat \<Rightarrow> int \<Rightarrow> int \<Rightarrow> DOMRect \<Rightarrow> DOM \<Rightarrow> DOM" where
  "layout r w h rect d =
     upd r (\<lambda>e. e\<lparr>clientWidth := w, clientHeight := h, boundingClientRect := rect\<rparr>) d"

definition decoded :: "nat \<Rightarrow> nat \<Rightarrow> nat \<Rightarrow> DOM \<Rightarrow> DOM" where
  "decoded r w h d =
     upd r (\<lambda>e. if tagName e = ''VIDEO'' then e\<lparr>videoWidth := Some w, videoHeight := Some h\<rparr>
                else if tagName e = ''IMG'' then e\<lparr>naturalWidth := Some w, naturalHeight := Some h\<rparr>
                else e) d"

subsection \<open>utils/dom.ts\<close>

datatype classNames = ClassArray "string list" | ClassName string | ClassNull

definition make_element :: "string \<Rightarrow> classNames \<Rightarrow> (string \<times> propval) list \<Rightarrow> element" where
  "make_element tag cls attributes =
     (let el = createElement tag;
          el = (case cls of
                  ClassArray cs \<Rightarrow> el\<lparr>classList := classList_add (classList el) cs\<rparr>
                | ClassName c \<Rightarrow> el\<lparr>classList := classList_add (classList el) [c]\<rparr>
                | ClassNull \<Rightarrow> el)
      in el\<lparr>props := foldl (\<lambda>ps (k, v). AList.update k v ps) (props el) attributes\<rparr>)"

text \<open>\<open>make\<close> returns the reference of the element it built, now in the store.\<close>

definition make :: "string \<Rightarrow> classNames \<Rightarrow> (string \<times> propval) list \<Rightarrow> DOM \<Rightarrow> nat \<times> DOM" where
  "make tag cls attributes d = (fresh d, insertElement (make_element tag cls attributes) d)"

section \<open>ui.ts\<close>

text \<open>The getter \<open>CSS\<close>.\<close>

definition CSS_baseClass :: "Ui \<Rightarrow> string" where "CSS_baseClass u = styles_block (api u)"
definition CSS_button :: "Ui \<Rightarrow> string" where "CSS_button u = styles_button (api u)"
definition CSS_wrapper :: string where "CSS_wrapper = ''image-tool''"
definition CSS_imageContainer :: string where "CSS_imageContainer = ''image-tool__image''"
definition CSS_imagePreloader :: string where "CSS_imagePreloader = ''image-tool__image-preloader''"
definition CSS_imageEl :: string where "CSS_imageEl = ''image-tool__image-picture''"
definition CSS_caption :: string where "CSS_caption = ''image-tool__caption''"

definition on_dom :: "(DOM \<Rightarrow> DOM) \<Rightarrow> Ui \<Rightarrow> Ui" where
  "on_dom f u = u\<lparr>dom := f (dom u)\<rparr>"

text \<open>A new function object: its reference is the next free one.\<close>

definition new_closure :: "closure \<Rightarrow> DOM \<Rightarrow> handler \<times> DOM" where
  "new_closure c d = ((fresh d, c), reserve d)"

definition createFileButton :: "Ui \<Rightarrow> nat \<times> Ui" where
  "createFileButton u =
     (let (button, d1) = make ''div'' (ClassArray [CSS_button u]) [] (dom u);
          d2 = setProp button ''innerHTML''
                 (PStr (case buttonContent (config u) of
                          Some b \<Rightarrow> b
                        | None \<Rightarrow> IconPicture (api u) @ '' <span>''
                                   @ i18n_t (api u) ''Click to upload image'' @ ''</span>'')) d1;
          (h, d3) = new_closure FileButtonHandler d2;
          d4 = addEventListener button ''click'' h d3
      in (button, u\<lparr>fileButtonHandler := Some h, dom := d4\<rparr>))"

text \<open>The constructor of \<open>Ui\<close>, in the document \<open>d0\<close> it finds. The callback
  \<open>onSelectFile\<close> only calls the uploader and is not kept.\<close>

definition Ui_new :: "API \<Rightarrow> ImageConfig \<Rightarrow> bool \<Rightarrow> DOM \<Rightarrow> Ui" where
  "Ui_new a cfg ro d0 =
     (let u0 = \<lparr>nodes = \<lparr>wrapper = 0, imageContainer = 0, fileButton = 0, imageEl = None,
                         imagePreloader = 0, caption_node = 0\<rparr>,
                api = a, isResizing = False, config = cfg, readOnly = ro,
                contentRatio = Num 1, imageLoadHandler = None, imageErrorHandler = None,
                fileButtonHandler = None, resizeHandlers = [], dom = d0\<rparr>;
          (w, d1) = make ''div'' (ClassArray [CSS_baseClass u0, CSS_wrapper]) [] (dom u0);
          (ic, d2) = make ''div'' (ClassArray [CSS_imageContainer]) [] d1;
          (fb, u1) = createFileButton (u0\<lparr>dom := d2\<rparr>);
          (pre, d3) = make ''div'' (ClassName CSS_imagePreloader) [] (dom u1);
          (cap, d4) = make ''div'' (ClassArray [CSS_caption])
                        [(''contentEditable'', PBool (\<not> ro))] d3;
          d5 = setProp cap ''data-placeholder''
                 (PStr (case captionPlaceholder cfg of Some s \<Rightarrow> s | None \<Rightarrow> ''undefined'')) d4;
          d6 = appendChild ic pre d5;
          d7 = appendChild w ic d6;
          d8 = (if \<not> ro then appendChild w fb d7 else d7)
      in u1\<lparr>nodes := \<lparr>wrapper = w, imageContainer = ic, fileButton = fb, imageEl = None,
                        imagePreloader = pre, caption_node = cap\<rparr>,
             dom := d8\<rparr>)"

definition toggleStatus :: "UiState \<Rightarrow> Ui \<Rightarrow> Ui" where
  "toggleStatus status u =
     foldl (\<lambda>u statusType.
              on_dom (toggleClass (wrapper (nodes u))
                        (CSS_wrapper @ ''--'' @ UiState_value statusType) (status = statusType)) u)
       u [Empty, Uploading, Filled]"

text \<open>\<open>render\<close> returns the wrapper; \<open>Object.keys(toolData.file).length\<close> counts the
  \<open>url\<close>, when there is one, and the further fields.\<close>

definition keys_length :: "FileData \<Rightarrow> nat" where
  "keys_length f = (case url f of None \<Rightarrow> 0 | Some _ \<Rightarrow> 1) + length (extra f)"

definition render :: "ImageToolData \<Rightarrow> Ui \<Rightarrow> nat \<times> Ui" where
  "render toolData u =
     (let u1 = (case file' toolData of
                  None \<Rightarrow> toggleStatus Empty u
                | Some f \<Rightarrow> (if keys_length f = 0 then toggleStatus Empty u
                             else toggleStatus Uploading u))
      in (wrapper (nodes u1), u1))"

definition showPreloader :: "string \<Rightarrow> Ui \<Rightarrow> Ui" where
  "showPreloader src u =
     toggleStatus Uploading
       (on_dom (setStyle (imagePreloader (nodes u)) ''backgroundImage''
                  (CssText (''url('' @ src @ '')''))) u)"

definition hidePreloader :: "Ui \<Rightarrow> Ui" where
  "hidePreloader u =
     toggleStatus Empty
       (on_dom (setStyle (imagePreloader (nodes u)) ''backgroundImage'' (CssText [])) u)"

definition createResizer :: "align \<Rightarrow> Ui \<Rightarrow> nat \<times> Ui" where
  "createResizer al u =
     (let (container, d1) = make ''div'' (ClassArray [''resize-container-'' @ align_name al]) [] (dom u);
          (resizeHandle, d2) = make ''div'' (ClassArray [''resize-handle'']) [] d1;
          d3 = appendChild container resizeHandle d2;
          (mouseDownHandler, d4) = new_closure (MouseDownHandler al) d3;
          d5 = addEventListener container ''mousedown'' mouseDownHandler d4
      in (container,
          u\<lparr>resizeHandlers := AList.update container mouseDownHandler (resizeHandlers u),
            dom := d5\<rparr>))"

text \<open>\<open>this.config.showCaption ?? true\<close>.\<close>

definition captionShown :: "Ui \<Rightarrow> bool" where
  "captionShown u = (case showCaption (config u) of None \<Rightarrow> True | Some b \<Rightarrow> b)"

text \<open>The clean-up of \<open>fillImage\<close>:
  \<open>if (handler !== null && this.nodes.imageEl !== undefined)
       this.nodes.imageEl.removeEventListener(eventName, handler)\<close>.\<close>

definition removeOldListener :: "handler option \<Rightarrow> nat option \<Rightarrow> string \<Rightarrow> DOM \<Rightarrow> DOM" where
  "removeOldListener handler el eventName d =
     (case handler of
        None \<Rightarrow> d
      | Some h \<Rightarrow> (case el of None \<Rightarrow> d | Some r \<Rightarrow> removeEventListener r eventName h d))"

definition fillImage :: "string \<Rightarrow> string option \<Rightarrow> string option \<Rightarrow> Ui \<Rightarrow> Ui" where
  "fillImage url' height' width' u =
     (let tag = (if mp4_test url' then ''VIDEO'' else ''IMG'');
          attributes = [(''src'', PStr url'), (''loading'', PStr ''lazy''),
                        (''decoding'', PStr ''async'')];
          attributes = (if tag = ''VIDEO''
                        then attributes @ [(''autoplay'', PBool True), (''loop'', PBool True),
                               (''muted'', PBool True), (''playsinline'', PBool True),
                               (''controls'', PBool True)]
                        else attributes);
          eventName = (if tag = ''VIDEO'' then ''loadeddata'' else ''load'');
          (el, d1) = make tag (ClassArray [CSS_imageEl, ''resizable-image'']) attributes (dom u);
          u1 = u\<lparr>nodes := (nodes u)\<lparr>imageEl := Some el\<rparr>, dom := d1\<rparr>;
          u2 = on_dom (removeOldListener (imageLoadHandler u1) (imageEl (nodes u1)) eventName) u1;
          u3 = on_dom (removeOldListener (imageErrorHandler u2) (imageEl (nodes u2)) ''error'') u2;
          (loadH, d4) = new_closure (ImageLoadHandler tag width') (dom u3);
          (errorH, d5) = new_closure (ImageErrorHandler url') d4;
          d6 = addEventListener el eventName loadH d5;
          d7 = addEventListener el ''error'' errorH d6;
          (contentWrapper, d8) = make ''div'' (ClassArray [''content-wrapper'']) [] d7;
          (imageContainer', d9) = make ''div'' (ClassArray [''image-container'']) [] d8;
          d10 = appendChild imageContainer' el d9;
          d11 = appendChild contentWrapper imageContainer' d10;
          d12 = appendChild (imageContainer (nodes u3)) contentWrapper d11;
          u4 = u3\<lparr>imageLoadHandler := Some loadH, imageErrorHandler := Some errorH, dom := d12\<rparr>;
          u5 = (if \<not> readOnly u4
                then (let ua = on_dom (addClass (imageContainer (nodes u4)) ''resizable-container'') u4;
                          (l, ub) = createResizer AlignLeft ua;
                          uc = on_dom (appendChild imageContainer' l) ub;
                          (r, ud) = createResizer AlignRight uc
                      in on_dom (appendChild imageContainer' r) ud)
                else u4)
      in if captionShown u5
         then on_dom (appendChild contentWrapper (caption_node (nodes u5))) u5
         else u5)"

text \<open>\<open>resizeImage\<close>, with the event's \<open>clientX\<close>.\<close>

definition resizeImage :: "rat \<Rightarrow> align \<Rightarrow> Ui \<Rightarrow> Ui" where
  "resizeImage clientX al u =
     (if \<not> isResizing u then u
      else case imageEl (nodes u) of
        None \<Rightarrow> u
      | Some el \<Rightarrow>
          (let rect = boundingClientRect (store (dom u) el);
               offset = rect_left rect - clientX;
               offset = (if al = AlignRight then clientX - rect_right rect else offset);
               newWidth = rect_width rect + offset;
               newWidth = max newWidth 30
           in on_dom (setStyle el ''height'' (CssText ''auto''))
                (on_dom (setStyle el ''width'' (CssPx newWidth)) u)))"

definition fillCaption :: "string \<Rightarrow> Ui \<Rightarrow> Ui" where
  "fillCaption text u = on_dom (setTextContent (caption_node (nodes u)) text) u"

definition removeFileButton :: "Ui \<Rightarrow> Ui" where
  "removeFileButton u =
     (if \<not> readOnly u \<and> parentNode (store (dom u) (fileButton (nodes u))) \<noteq> None
      then on_dom (removeChild (wrapper (nodes u)) (fileButton (nodes u))) u
      else u)"

definition addFileButton :: "Ui \<Rightarrow> Ui" where
  "addFileButton u =
     (if \<not> readOnly u
      then on_dom (appendChild (wrapper (nodes u)) (fileButton (nodes u))) u
      else u)"


subsection \<open>The listeners of ui.ts and their dispatch\<close>

text \<open>The body of \<open>imageLoadHandler\<close>, with the \<open>tag\<close> and \<open>width\<close> it captured. It
  reads \<open>this.nodes.imageEl\<close> when it runs; reading a dimension of \<open>undefined\<close>
  throws.\<close>

definition imageLoadHandler_body :: "string \<Rightarrow> string option \<Rightarrow> Ui \<Rightarrow> outcome \<times> Ui" where
  "imageLoadHandler_body tag width' u =
     (let u1 = toggleStatus Filled u;
          u2 = (case imageEl (nodes u1) of
                  None \<Rightarrow> u1
                | Some el \<Rightarrow> on_dom (addClass el ''loaded'') u1)
      in case imageEl (nodes u2) of
           None \<Rightarrow> (Threw TypeError, u2)
         | Some el \<Rightarrow>
             (let u3 = (if tag = ''VIDEO''
                        then u2\<lparr>contentRatio := js_div (videoHeight (store (dom u2) el))
                                                  (videoWidth (store (dom u2) el))\<rparr>
                        else u2\<lparr>contentRatio := js_div (naturalHeight (store (dom u2) el))
                                                  (naturalWidth (store (dom u2) el))\<rparr>);
                  u4 = (case width' of
                          None \<Rightarrow> u3
                        | Some w \<Rightarrow>
                            (case parseInt w of
                               None \<Rightarrow> u3
                             | Some widthNum \<Rightarrow>
                                 (if widthNum > 0
                                  then on_dom (setStyle el ''height'' (CssText ''auto''))
                                         (on_dom (setStyle el ''width'' (CssPx (of_int widthNum))) u3)
                                  else u3)))
              in (Returned,
                  on_dom (setStyle (imagePreloader (nodes u4)) ''display'' (CssText ''none'')) u4)))"

definition imageErrorHandler_body :: "string \<Rightarrow> Ui \<Rightarrow> Ui" where
  "imageErrorHandler_body url' u =
     (let u1 = toggleStatus Empty u
      in case imageEl (nodes u1) of
           None \<Rightarrow> u1
         | Some el \<Rightarrow>
             (case parentNode (store (dom u1) el) of
                None \<Rightarrow> u1
              | Some p \<Rightarrow> (on_dom (removeChild p el) u1)\<lparr>nodes := (nodes u1)\<lparr>imageEl := None\<rparr>\<rparr>))"

definition addDocumentListener :: "string \<Rightarrow> handler \<Rightarrow> DOM \<Rightarrow> DOM" where
  "addDocumentListener ev h d =
     d\<lparr>documentListeners :=
         (if (ev, h) \<in> set (documentListeners d) then documentListeners d
          else documentListeners d @ [(ev, h)])\<rparr>"

definition removeDocumentListener :: "string \<Rightarrow> handler \<Rightarrow> DOM \<Rightarrow> DOM" where
  "removeDocumentListener ev h d = d\<lparr>documentListeners := removeAll (ev, h) (documentListeners d)\<rparr>"

definition mouseDownHandler_body :: "align \<Rightarrow> Ui \<Rightarrow> Ui" where
  "mouseDownHandler_body al u =
     (let u1 = u\<lparr>isResizing := True\<rparr>;
          (onMouseMove, d1) = new_closure (OnMouseMove al) (dom u1);
          d2 = addDocumentListener ''mousemove'' onMouseMove d1;
          (onMouseUp, d3) = new_closure (OnMouseUp (fst onMouseMove) al) d2;
          d4 = addDocumentListener ''mouseup'' onMouseUp d3
      in u1\<lparr>dom := d4\<rparr>)"

definition onMouseUp_body :: "handler \<Rightarrow> handler \<Rightarrow> Ui \<Rightarrow> Ui" where
  "onMouseUp_body onMouseMove onMouseUp u =
     on_dom (removeDocumentListener ''mouseup'' onMouseUp)
       (on_dom (removeDocumentListener ''mousemove'' onMouseMove) (u\<lparr>isResizing := False\<rparr>))"

text \<open>Calling a listener with an event whose \<open>clientX\<close> is \<open>x\<close>. The click handler of
  the upload button calls \<open>onSelectFile\<close>, which only starts the uploader.\<close>

definition call :: "handler \<Rightarrow> rat \<Rightarrow> Ui \<Rightarrow> outcome \<times> Ui" where
  "call h x u =
     (case snd h of
        ImageLoadHandler tag width' \<Rightarrow> imageLoadHandler_body tag width' u
      | ImageErrorHandler url' \<Rightarrow> (Returned, imageErrorHandler_body url' u)
      | FileButtonHandler \<Rightarrow> (Returned, u)
      | MouseDownHandler al \<Rightarrow> (Returned, mouseDownHandler_body al u)
      | OnMouseMove al \<Rightarrow> (Returned, resizeImage x al u)
      | OnMouseUp mv al \<Rightarrow> (Returned, onMouseUp_body (mv, OnMouseMove al) h u))"

text \<open>The browser runs the listeners registered when the dispatch starts, in order, each
  only if it is still registered when its turn comes; an exception thrown by one is
  reported and the next one runs.\<close>

fun run_listeners ::
  "(string \<times> handler) list \<Rightarrow> (Ui \<Rightarrow> (string \<times> handler) list) \<Rightarrow> string \<Rightarrow> rat \<Rightarrow> Ui \<Rightarrow> Ui" where
  "run_listeners [] current ev x u = u"
| "run_listeners ((e, h) # rest) current ev x u =
     (if e = ev \<and> (e, h) \<in> set (current u)
      then run_listeners rest current ev x (snd (call h x u))
      else run_listeners rest current ev x u)"

definition dispatchEvent :: "nat \<Rightarrow> string \<Rightarrow> rat \<Rightarrow> Ui \<Rightarrow> Ui" where
  "dispatchEvent r ev x u =
     run_listeners (listeners (store (dom u) r)) (\<lambda>u. listeners (store (dom u) r)) ev x u"


section \<open>index.ts\<close>

definition on_ui :: "(Ui \<Rightarrow> Ui) \<Rightarrow> ImageTool \<Rightarrow> ImageTool" where
  "on_ui f t = t\<lparr>ui := f (ui t)\<rparr>"

definition isNotEmpty :: "string option \<Rightarrow> bool" where
  "isNotEmpty str \<longleftrightarrow> (case str of None \<Rightarrow> False | Some s \<Rightarrow> trim s \<noteq> [])"

text \<open>The setter \<open>image\<close>.\<close>

definition set_image :: "FileData option \<Rightarrow> ImageTool \<Rightarrow> ImageTool" where
  "set_image f t =
     (let t1 = t\<lparr>data := (data t)\<lparr>file' :=
                  Some (case f of None \<Rightarrow> \<lparr>url = Some [], extra = []\<rparr> | Some g \<Rightarrow> g)\<rparr>\<rparr>
      in case f of
           None \<Rightarrow> t1
         | Some g \<Rightarrow>
             (case url g of
                None \<Rightarrow> t1
              | Some s \<Rightarrow>
                  (if s \<noteq> []
                   then on_ui (fillImage s (height (data t1)) (width (data t1))) t1
                   else t1)))"

text \<open>The setter \<open>data\<close>.\<close>

definition set_data :: "ImageToolData \<Rightarrow> ImageTool \<Rightarrow> ImageTool" where
  "set_data d t =
     (let t1 = t\<lparr>data := (data t)\<lparr>
                  caption := Some (case caption d of None \<Rightarrow> [] | Some c \<Rightarrow> c),
                  height := height d, width := width d\<rparr>\<rparr>;
          t2 = set_image (file' d) t1
      in on_ui (fillCaption (case caption (data t2) of None \<Rightarrow> [] | Some c \<Rightarrow> c)) t2)"

text \<open>The constructor: \<open>cfg\<close> is the configuration the caller supplied, \<open>d0\<close> the
  document of the page.\<close>

definition ImageTool_new ::
  "ImageToolData \<Rightarrow> ImageConfig \<Rightarrow> API \<Rightarrow> bool \<Rightarrow> DOM \<Rightarrow> ImageTool" where
  "ImageTool_new d cfg a ro d0 =
     (let config' = \<lparr>captionPlaceholder =
                        Some (i18n_t a (case captionPlaceholder cfg of
                                          None \<Rightarrow> ''Enter a caption'' | Some p \<Rightarrow> p)),
                      buttonContent = buttonContent cfg,
                      showCaption = Some (\<not> ro \<or> isNotEmpty (caption d))\<rparr>;
          t = \<lparr>ui = Ui_new a config' ro d0,
               data = \<lparr>caption = Some [], height = height d, width = width d,
                       file' = Some \<lparr>url = Some [], extra = []\<rparr>\<rparr>,
               notifications = []\<rparr>
      in set_data d t)"


text \<open>\<open>validate\<close>: reading \<open>url\<close> of a missing \<open>file\<close> throws; \<open>!!\<close> of a string is
  whether it is non-empty, of \<open>undefined\<close> it is \<open>false\<close>.\<close>

definition validate :: "ImageToolData \<Rightarrow> error + bool" where
  "validate savedData =
     (case file' savedData of
        None \<Rightarrow> Inl TypeError
      | Some f \<Rightarrow> Inr (case url f of None \<Rightarrow> False | Some s \<Rightarrow> s \<noteq> []))"

definition save :: "ImageTool \<Rightarrow> ImageToolData \<times> ImageTool" where
  "save t =
     (let caption' = caption_node (nodes (ui t));
          image = imageEl (nodes (ui t));
          t1 = t\<lparr>data := (data t)\<lparr>caption :=
                  Some (case textContent (store (dom (ui t)) caption') of
                          None \<Rightarrow> [] | Some s \<Rightarrow> trim s)\<rparr>\<rparr>;
          currentWidth = (case image of None \<Rightarrow> 0 | Some el \<Rightarrow> clientWidth (store (dom (ui t)) el));
          currentHeight = (case image of None \<Rightarrow> 0 | Some el \<Rightarrow> clientHeight (store (dom (ui t)) el));
          t2 = (if currentWidth > 0 \<and> currentHeight > 0
                then t1\<lparr>data := (data t1)\<lparr>width := Some (String currentWidth),
                                            height := Some (String currentHeight)\<rparr>\<rparr>
                else t1)
      in (data t2, t2))"



text \<open>\<open>uploadingFailed\<close>; the message holds a right single quotation mark, here its
  UTF-8 bytes.\<close>

definition uploadingFailed :: "string \<Rightarrow> ImageTool \<Rightarrow> ImageTool" where
  "uploadingFailed errorText t =
     (let t1 = t\<lparr>notifications := notifications t @
                  [(i18n_t (api (ui t))
                      (''Couldn'' @ [CHR 0xE2, CHR 0x80, CHR 0x99]
                         @ ''t upload image. Please try another.''),
                    ''error'')]\<rparr>
      in on_ui addFileButton (on_ui hidePreloader t1))"

text \<open>\<open>onUpload\<close>: a number is truthy unless it is zero, an object always is. The
  text handed to \<open>uploadingFailed\<close> is only logged.\<close>

definition onUpload :: "UploadResponseFormat \<Rightarrow> ImageTool \<Rightarrow> ImageTool" where
  "onUpload response t =
     (if success response \<noteq> 0 \<and> response_file response \<noteq> None
      then set_image (response_file response) t
      else uploadingFailed ''incorrect response: '' t)"





subsection \<open>The life of a block\<close>




definition empty_document :: DOM where
  "empty_document = \<lparr>store = (\<lambda>_. createElement []), fresh = 0, documentListeners = []\<rparr>"

section \<open>Closed forms used in the proofs\<close>

text \<open>The document after \<open>fillImage\<close> has built the media element, bound its two
  listeners and put it in its wrappers; \<open>n\<close> is the first free reference before.\<close>

definition media_tag :: "string \<Rightarrow> string" where
  "media_tag url' = (if mp4_test url' then ''VIDEO'' else ''IMG'')"

definition media_attributes :: "string \<Rightarrow> (string \<times> propval) list" where
  "media_attributes url' =
     (if mp4_test url'
      then [(''src'', PStr url'), (''loading'', PStr ''lazy''), (''decoding'', PStr ''async''),
            (''autoplay'', PBool True), (''loop'', PBool True), (''muted'', PBool True),
            (''playsinline'', PBool True), (''controls'', PBool True)]
      else [(''src'', PStr url'), (''loading'', PStr ''lazy''), (''decoding'', PStr ''async'')])"

definition media_event :: "string \<Rightarrow> string" where
  "media_event url' = (if mp4_test url' then ''loadeddata'' else ''load'')"

definition filled_media :: "string \<Rightarrow> string option \<Rightarrow> Ui \<Rightarrow> DOM" where
  "filled_media url' w u =
     (let n = fresh (dom u) in
      appendChild (imageContainer (nodes u)) (n + 3)
        (appendChild (n + 3) (n + 4)
          (appendChild (n + 4) n
            (insertElement (make_element ''div'' (ClassArray [''image-container'']) [])
              (insertElement (make_element ''div'' (ClassArray [''content-wrapper'']) [])
                (addEventListener n ''error'' (n + 2, ImageErrorHandler url')
                  (addEventListener n (media_event url')
                     (n + 1, ImageLoadHandler (media_tag url') w)
                    (reserve (reserve
                      (insertElement
                         (make_element (media_tag url')
                            (ClassArray [CSS_imageEl, ''resizable-image''])
                            (media_attributes url'))
                         (dom u)))))))))))"

definition with_resizer :: "align \<Rightarrow> nat \<Rightarrow> nat \<Rightarrow> DOM \<Rightarrow> DOM" where
  "with_resizer al ic m d =
     appendChild ic m
       (addEventListener m ''mousedown'' (m + 2, MouseDownHandler al)
         (reserve
           (appendChild m (m + 1)
             (insertElement (make_element ''div'' (ClassArray [''resize-handle'']) [])
               (insertElement
                  (make_element ''div'' (ClassArray [''resize-container-'' @ align_name al]) [])
                  d)))))"

definition filled_resizers :: "Ui \<Rightarrow> DOM \<Rightarrow> DOM" where
  "filled_resizers u d =
     (let n = fresh (dom u) in
      if readOnly u then d
      else with_resizer AlignRight (n + 4) (n + 8)
             (with_resizer AlignLeft (n + 4) (n + 5)
               (addClass (imageContainer (nodes u)) ''resizable-container'' d)))"

definition filled_caption :: "Ui \<Rightarrow> DOM \<Rightarrow> DOM" where
  "filled_caption u d =
     (if captionShown u then appendChild (fresh (dom u) + 3) (caption_node (nodes u)) d else d)"


text \<open>What \<open>save\<close> reads from the live media element: \<open>image?.clientWidth ?? 0\<close> and
  \<open>image?.clientHeight ?? 0\<close>.\<close>

definition renderedWidth :: "ImageTool \<Rightarrow> int" where
  "renderedWidth t =
     (case imageEl (nodes (ui t)) of None \<Rightarrow> 0 | Some el \<Rightarrow> clientWidth (store (dom (ui t)) el))"

definition renderedHeight :: "ImageTool \<Rightarrow> int" where
  "renderedHeight t =
     (case imageEl (nodes (ui t)) of None \<Rightarrow> 0 | Some el \<Rightarrow> clientHeight (store (dom (ui t)) el))"

text \<open>A host and a caller configuration for the examples.\<close>

definition demo_api :: API where
  "demo_api = \<lparr>i18n_t = (\<lambda>s. s), styles_block = ''cdx-block'', styles_loader = ''cdx-loader'',
                styles_input = ''cdx-input'', styles_button = ''cdx-button'',
                IconPicture = ''<svg/>''\<rparr>"

definition demo_config :: ImageConfig where
  "demo_config = \<lparr>captionPlaceholder = None, buttonContent = None, showCaption = None\<rparr>"

definition empty_data :: ImageToolData where
  "empty_data = \<lparr>caption = None, height = None, width = None, file' = None\<rparr>"

text \<open>What stays of a \<open>Ui\<close> for the life of its block: the configuration, the mode,
  the host and the five nodes built by the constructor; references are never given
  back.\<close>

definition same_block :: "Ui \<Rightarrow> Ui \<Rightarrow> bool" where
  "same_block u u' \<longleftrightarrow>
     config u' = config u \<and> readOnly u' = readOnly u \<and> api u' = api u \<and>
     wrapper (nodes u') = wrapper (nodes u) \<and>
     imageContainer (nodes u') = imageContainer (nodes u) \<and>
     fileButton (nodes u') = fileButton (nodes u) \<and>
     imagePreloader (nodes u') = imagePreloader (nodes u) \<and>
     caption_node (nodes u') = caption_node (nodes u) \<and>
     fresh (dom u) \<le> fresh (dom u')"



text \<open>The width the specification expects \<open>save\<close> to persist, as the specification
  words it: \<open>round(p / c * 100)\<close> as a string, \<open>Math.round\<close> rounding halves up.\<close>

definition Math_round :: "rat \<Rightarrow> int" where
  "Math_round x = \<lfloor>x + 1 / 2\<rfloor>"

definition spec_percentage :: "int \<Rightarrow> int \<Rightarrow> string" where
  "spec_percentage p c = String (Math_round (of_int p / of_int c * 100))"

text \<open>A new block in an empty page, the answer of a backend, and the block after the
  upload: its picture laid out at 200 by 100 in a container 400 wide; then the same
  block after a save, its picture detached and reporting 0 by 0; and a drag begun on
  the right handle.\<close>

definition demo_tool :: ImageTool where
  "demo_tool = ImageTool_new empty_data demo_config demo_api False empty_document"

definition demo_response :: UploadResponseFormat where
  "demo_response = \<lparr>success = 1, response_file = Some \<lparr>url = Some ''https://x/y.png'', extra = []\<rparr>\<rparr>"

definition demo_rect :: DOMRect where
  "demo_rect = \<lparr>rect_left = 100, rect_right = 300, rect_width = 200\<rparr>"

definition demo_picture :: nat where
  "demo_picture = fresh (dom (ui demo_tool))"

definition demo_filled :: ImageTool where
  "demo_filled =
     on_ui (on_dom (layout demo_picture 200 100 demo_rect))
       (on_ui (\<lambda>u. on_dom (layout (imageContainer (nodes u)) 400 100
                              \<lparr>rect_left = 0, rect_right = 400, rect_width = 400\<rparr>) u)
          (onUpload demo_response demo_tool))"

definition demo_detached :: ImageTool where
  "demo_detached =
     on_ui (on_dom (layout demo_picture 0 0 \<lparr>rect_left = 0, rect_right = 0, rect_width = 0\<rparr>))
       (snd (save demo_filled))"

definition demo_dragging :: Ui where
  "demo_dragging = mouseDownHandler_body AlignRight (ui demo_filled)"

text \<open>A fresh \<open>Ui\<close>; the same after \<open>fillImage\<close> was called twice, first with a saved
  width of 300 and then without one; and a picture that the browser has decoded at 800
  by 400, filled with a saved width of 250.\<close>

definition demo_ui :: Ui where
  "demo_ui = Ui_new demo_api demo_config False empty_document"

definition demo_refilled :: Ui where
  "demo_refilled = fillImage ''b.png'' None None (fillImage ''a.png'' None (Some ''300'') demo_ui)"

definition demo_loading :: Ui where
  "demo_loading =
     on_dom (decoded (fresh (dom demo_ui)) 800 400)
       (fillImage ''https://x/y.png'' None (Some ''250'') demo_ui)"



definition demo_readonly :: ImageTool where
  "demo_readonly = ImageTool_new empty_data demo_config demo_api True empty_document"

definition demo_truthy_response :: UploadResponseFormat where
  "demo_truthy_response =
     \<lparr>success = 2, response_file = Some \<lparr>url = Some ''https://x/y.png'', extra = []\<rparr>\<rparr>"

text \<open>The message of the notification of \<open>uploadingFailed\<close>.\<close>

definition uploadFailedMessage :: string where
  "uploadFailedMessage = ''Couldn'' @ [CHR 0xE2, CHR 0x80, CHR 0x99]
                         @ ''t upload image. Please try another.''"


section \<open>Lemmas about the document\<close>

lemma store_upd: "store (upd r f d) r' = (if r' = r then f (store d r) else store d r')"
  by (simp add: upd_def)

lemma fresh_upd: "fresh (upd r f d) = fresh d"
  by (simp add: upd_def)

lemma documentListeners_upd: "documentListeners (upd r f d) = documentListeners d"
  by (simp add: upd_def)

lemma fresh_ops:
  "fresh (addEventListener r ev h d) = fresh d"
  "fresh (removeEventListener r ev h d) = fresh d"
  "fresh (appendChild p c d) = fresh d"
  "fresh (removeChild p c d) = fresh d"
  "fresh (setStyle r k v d) = fresh d"
  "fresh (setProp r k pv d) = fresh d"
  "fresh (addClass r cn d) = fresh d"
  "fresh (toggleClass r cn b d) = fresh d"
  "fresh (setTextContent r s d) = fresh d"
  "fresh (layout r cw ch rect d) = fresh d"
  "fresh (decoded r nw nh d) = fresh d"
  "fresh (addDocumentListener ev h d) = fresh d"
  "fresh (removeDocumentListener ev h d) = fresh d"
  "fresh (insertElement e d) = Suc (fresh d)"
  "fresh (reserve d) = Suc (fresh d)"
  by (simp_all add: addEventListener_def removeEventListener_def appendChild_def removeChild_def
      setStyle_def setProp_def addClass_def toggleClass_def setTextContent_def layout_def
      decoded_def addDocumentListener_def removeDocumentListener_def insertElement_def
      reserve_def fresh_upd Let_def split: option.split)

lemma store_ops:
  "store (addEventListener r ev h d) r' =
     (if r' = r then (store d r)\<lparr>listeners :=
        (if (ev, h) \<in> set (listeners (store d r)) then listeners (store d r)
         else listeners (store d r) @ [(ev, h)])\<rparr> else store d r')"
  "store (removeEventListener r ev h d) r' =
     (if r' = r then (store d r)\<lparr>listeners := removeAll (ev, h) (listeners (store d r))\<rparr>
      else store d r')"
  "store (setStyle r k v d) r' =
     (if r' = r then (store d r)\<lparr>style := (style (store d r))(k := v)\<rparr> else store d r')"
  "store (setProp r k pv d) r' =
     (if r' = r then (store d r)\<lparr>props := AList.update k pv (props (store d r))\<rparr> else store d r')"
  "store (addClass r cn d) r' =
     (if r' = r then (store d r)\<lparr>classList := classList_add (classList (store d r)) [cn]\<rparr>
      else store d r')"
  "store (toggleClass r cn b d) r' =
     (if r' = r then (store d r)\<lparr>classList := classList_toggle cn b (classList (store d r))\<rparr>
      else store d r')"
  "store (setTextContent r s d) r' =
     (if r' = r then (store d r)\<lparr>textContent := Some s\<rparr> else store d r')"
  "store (layout r cw ch rect d) r' =
     (if r' = r then (store d r)\<lparr>clientWidth := cw, clientHeight := ch, boundingClientRect := rect\<rparr>
      else store d r')"
  "store (insertElement e d) r' = (if r' = fresh d then e else store d r')"
  "store (reserve d) r' = store d r'"
  "store (addDocumentListener ev h d) r' = store d r'"
  "store (removeDocumentListener ev h d) r' = store d r'"
  by (simp_all add: addEventListener_def removeEventListener_def
      setStyle_def setProp_def addClass_def toggleClass_def setTextContent_def layout_def
      addDocumentListener_def removeDocumentListener_def insertElement_def
      reserve_def store_upd)

lemma documentListeners_ops:
  "documentListeners (addEventListener r ev h d) = documentListeners d"
  "documentListeners (removeEventListener r ev h d) = documentListeners d"
  "documentListeners (appendChild p c d) = documentListeners d"
  "documentListeners (removeChild p c d) = documentListeners d"
  "documentListeners (setStyle r k v d) = documentListeners d"
  "documentListeners (setProp r k pv d) = documentListeners d"
  "documentListeners (addClass r cn d) = documentListeners d"
  "documentListeners (toggleClass r cn b d) = documentListeners d"
  "documentListeners (setTextContent r s d) = documentListeners d"
  "documentListeners (layout r cw ch rect d) = documentListeners d"
  "documentListeners (decoded r nw nh d) = documentListeners d"
  "documentListeners (insertElement e d) = documentListeners d"
  "documentListeners (reserve d) = documentListeners d"
  by (simp_all add: addEventListener_def removeEventListener_def appendChild_def removeChild_def
      setStyle_def setProp_def addClass_def toggleClass_def setTextContent_def layout_def
      decoded_def insertElement_def
      reserve_def documentListeners_upd Let_def split: option.split)

text \<open>\<open>appendChild\<close> and \<open>removeChild\<close> change the tree and nothing else.\<close>

lemma appendChild_stable:
  "tagName (store (appendChild p c d) r) = tagName (store d r)"
  "classList (store (appendChild p c d) r) = classList (store d r)"
  "props (store (appendChild p c d) r) = props (store d r)"
  "style (store (appendChild p c d) r) = style (store d r)"
  "listeners (store (appendChild p c d) r) = listeners (store d r)"
  "textContent (store (appendChild p c d) r) = textContent (store d r)"
  "clientWidth (store (appendChild p c d) r) = clientWidth (store d r)"
  "clientHeight (store (appendChild p c d) r) = clientHeight (store d r)"
  "boundingClientRect (store (appendChild p c d) r) = boundingClientRect (store d r)"
  "naturalWidth (store (appendChild p c d) r) = naturalWidth (store d r)"
  "naturalHeight (store (appendChild p c d) r) = naturalHeight (store d r)"
  "videoWidth (store (appendChild p c d) r) = videoWidth (store d r)"
  "videoHeight (store (appendChild p c d) r) = videoHeight (store d r)"
  by (simp_all add: appendChild_def Let_def store_upd split: option.split)

lemma parentNode_appendChild:
  "parentNode (store (appendChild p c d) r) = (if r = c then Some p else parentNode (store d r))"
  by (simp add: appendChild_def Let_def store_upd split: option.split)

lemma children_appendChild_new:
  "parentNode (store d c) = None \<Longrightarrow>
   children (store (appendChild p c d) r) =
     (if r = p then children (store d p) @ [c] else children (store d r))"
  by (simp add: appendChild_def Let_def store_upd)

lemma removeChild_stable:
  "tagName (store (removeChild p c d) r) = tagName (store d r)"
  "classList (store (removeChild p c d) r) = classList (store d r)"
  "props (store (removeChild p c d) r) = props (store d r)"
  "style (store (removeChild p c d) r) = style (store d r)"
  "listeners (store (removeChild p c d) r) = listeners (store d r)"
  "textContent (store (removeChild p c d) r) = textContent (store d r)"
  "clientWidth (store (removeChild p c d) r) = clientWidth (store d r)"
  "clientHeight (store (removeChild p c d) r) = clientHeight (store d r)"
  "boundingClientRect (store (removeChild p c d) r) = boundingClientRect (store d r)"
  "naturalWidth (store (removeChild p c d) r) = naturalWidth (store d r)"
  "naturalHeight (store (removeChild p c d) r) = naturalHeight (store d r)"
  "videoWidth (store (removeChild p c d) r) = videoWidth (store d r)"
  "videoHeight (store (removeChild p c d) r) = videoHeight (store d r)"
  by (simp_all add: removeChild_def store_upd)

lemma parentNode_removeChild:
  "parentNode (store (removeChild p c d) r) = (if r = c then None else parentNode (store d r))"
  by (simp add: removeChild_def store_upd)

lemma decoded_stable:
  "tagName (store (decoded r' nw nh d) r) = tagName (store d r)"
  "classList (store (decoded r' nw nh d) r) = classList (store d r)"
  "props (store (decoded r' nw nh d) r) = props (store d r)"
  "style (store (decoded r' nw nh d) r) = style (store d r)"
  "listeners (store (decoded r' nw nh d) r) = listeners (store d r)"
  "textContent (store (decoded r' nw nh d) r) = textContent (store d r)"
  "clientWidth (store (decoded r' nw nh d) r) = clientWidth (store d r)"
  "clientHeight (store (decoded r' nw nh d) r) = clientHeight (store d r)"
  "boundingClientRect (store (decoded r' nw nh d) r) = boundingClientRect (store d r)"
  "parentNode (store (decoded r' nw nh d) r) = parentNode (store d r)"
  "children (store (decoded r' nw nh d) r) = children (store d r)"
  by (simp_all add: decoded_def store_upd)

lemmas dom_simps = fresh_ops store_ops documentListeners_ops appendChild_stable
  parentNode_appendChild removeChild_stable parentNode_removeChild decoded_stable

section \<open>Lemmas about ui.ts\<close>

lemma on_dom_fields:
  "nodes (on_dom f u) = nodes u" "api (on_dom f u) = api u" "isResizing (on_dom f u) = isResizing u"
  "config (on_dom f u) = config u" "readOnly (on_dom f u) = readOnly u"
  "contentRatio (on_dom f u) = contentRatio u" "imageLoadHandler (on_dom f u) = imageLoadHandler u"
  "imageErrorHandler (on_dom f u) = imageErrorHandler u" "fileButtonHandler (on_dom f u) = fileButtonHandler u"
  "resizeHandlers (on_dom f u) = resizeHandlers u" "dom (on_dom f u) = f (dom u)"
  by (simp_all add: on_dom_def)

lemma make_fst: "fst (make tag cls attrs d) = fresh d"
  by (simp add: make_def)

lemma toggleStatus_eq:
  "toggleStatus status u =
     on_dom (\<lambda>d. toggleClass (wrapper (nodes u)) ''image-tool--filled'' (status = Filled)
               (toggleClass (wrapper (nodes u)) ''image-tool--uploading'' (status = Uploading)
                 (toggleClass (wrapper (nodes u)) ''image-tool--empty'' (status = Empty) d))) u"
  by (simp add: toggleStatus_def on_dom_def CSS_wrapper_def)

lemma createResizer_eq:
  "createResizer al u =
     (fresh (dom u),
      u\<lparr>resizeHandlers := AList.update (fresh (dom u))
            (Suc (Suc (fresh (dom u))), MouseDownHandler al) (resizeHandlers u),
        dom := addEventListener (fresh (dom u)) ''mousedown''
                 (Suc (Suc (fresh (dom u))), MouseDownHandler al)
                 (reserve (appendChild (fresh (dom u)) (Suc (fresh (dom u)))
                    (insertElement (make_element ''div'' (ClassArray [''resize-handle'']) [])
                       (insertElement (make_element ''div''
                            (ClassArray [''resize-container-'' @ align_name al]) []) (dom u)))))\<rparr>)"
  by (simp add: createResizer_def make_def new_closure_def fresh_ops Let_def)






lemma listeners_make_element: "listeners (make_element tag cls attrs) = []"
  by (simp add: make_element_def createElement_def Let_def split: classNames.split)

lemma removeOldListener_fresh:
  assumes "listeners e = []"
  shows "removeOldListener old (Some (fresh d)) ev (insertElement e d) = insertElement e d"
proof -
  have "e\<lparr>listeners := removeAll x (listeners e)\<rparr> = e" for x
    using assms by (cases e) simp
  then show ?thesis
    by (simp add: removeOldListener_def removeEventListener_def insertElement_def upd_def
        split: option.split)
qed

lemma if_tag_video: "((if c then ''VIDEO'' else ''IMG'') = ''VIDEO'') = c"
  by simp

lemmas fillImage_simps = fillImage_def Let_def fresh_ops on_dom_fields make_def new_closure_def createResizer_eq
  listeners_make_element removeOldListener_fresh on_dom_def if_tag_video

lemma fillImage_eq:
  "fillImage url' h w u =
     u\<lparr>nodes := (nodes u)\<lparr>imageEl := Some (fresh (dom u))\<rparr>,
       imageLoadHandler := Some (fresh (dom u) + 1, ImageLoadHandler (media_tag url') w),
       imageErrorHandler := Some (fresh (dom u) + 2, ImageErrorHandler url'),
       resizeHandlers :=
         (if readOnly u then resizeHandlers u
          else AList.update (fresh (dom u) + 8) (fresh (dom u) + 10, MouseDownHandler AlignRight)
                 (AList.update (fresh (dom u) + 5) (fresh (dom u) + 7, MouseDownHandler AlignLeft)
                    (resizeHandlers u))),
       dom := filled_caption u (filled_resizers u (filled_media url' w u))\<rparr>"
proof (cases "readOnly u")
  case True
  show ?thesis
  proof (cases "captionShown u")
    case True
    with \<open>readOnly u\<close> show ?thesis
      apply (simp add: captionShown_def)
      apply (simp add: fillImage_simps captionShown_def)
      apply (simp add: filled_caption_def filled_resizers_def filled_media_def media_tag_def media_event_def media_attributes_def captionShown_def Let_def eval_nat_numeral)
      done
  next
    case False
    with \<open>readOnly u\<close> show ?thesis
      apply (simp add: captionShown_def)
      apply (simp add: fillImage_simps captionShown_def)
      apply (simp add: filled_caption_def filled_resizers_def filled_media_def media_tag_def media_event_def media_attributes_def captionShown_def Let_def eval_nat_numeral)
      done
  qed
next
  case False
  show ?thesis
  proof (cases "captionShown u")
    case True
    with \<open>\<not> readOnly u\<close> show ?thesis
      apply (simp add: captionShown_def)
      apply (simp add: fillImage_simps captionShown_def)
      apply (simp add: filled_caption_def filled_resizers_def filled_media_def with_resizer_def media_tag_def media_event_def media_attributes_def captionShown_def Let_def eval_nat_numeral)
      done
  next
    case False
    with \<open>\<not> readOnly u\<close> show ?thesis
      apply (simp add: captionShown_def)
      apply (simp add: fillImage_simps captionShown_def)
      apply (simp add: filled_caption_def filled_resizers_def filled_media_def with_resizer_def media_tag_def media_event_def media_attributes_def captionShown_def Let_def eval_nat_numeral)
      done
  qed
qed

lemma createFileButton_eq:
  "createFileButton u =
     (fresh (dom u),
      u\<lparr>fileButtonHandler := Some (Suc (fresh (dom u)), FileButtonHandler),
        dom := addEventListener (fresh (dom u)) ''click'' (Suc (fresh (dom u)), FileButtonHandler)
                 (reserve (setProp (fresh (dom u)) ''innerHTML''
                    (PStr (case buttonContent (config u) of
                             Some b \<Rightarrow> b
                           | None \<Rightarrow> IconPicture (api u) @ '' <span>''
                                      @ i18n_t (api u) ''Click to upload image'' @ ''</span>''))
                    (insertElement (make_element ''div'' (ClassArray [CSS_button u]) []) (dom u))))\<rparr>)"
  by (simp add: createFileButton_def make_def new_closure_def fresh_ops Let_def)

lemma fillImage_fields:
  "nodes (fillImage url' h w u) = (nodes u)\<lparr>imageEl := Some (fresh (dom u))\<rparr>"
  "api (fillImage url' h w u) = api u"
  "isResizing (fillImage url' h w u) = isResizing u"
  "config (fillImage url' h w u) = config u"
  "readOnly (fillImage url' h w u) = readOnly u"
  "contentRatio (fillImage url' h w u) = contentRatio u"
  by (simp_all add: fillImage_eq)

lemma fresh_with_resizer: "fresh (with_resizer al ic m d) = fresh d + 3"
  by (simp add: with_resizer_def fresh_ops)

lemma fresh_filled_media: "fresh (filled_media url' w u) = fresh (dom u) + 5"
  by (simp add: filled_media_def fresh_ops Let_def)

lemma fillImage_fresh:
  "fresh (dom (fillImage url' h w u)) = fresh (dom u) + (if readOnly u then 5 else 11)"
  by (simp add: fillImage_eq filled_caption_def filled_resizers_def fresh_with_resizer
      fresh_filled_media fresh_ops Let_def)

lemma Ui_new_fields:
  "nodes (Ui_new a cfg ro d0) =
     \<lparr>wrapper = fresh d0, imageContainer = fresh d0 + 1, fileButton = fresh d0 + 2,
      imageEl = None, imagePreloader = fresh d0 + 4, caption_node = fresh d0 + 5\<rparr>"
  "config (Ui_new a cfg ro d0) = cfg"
  "readOnly (Ui_new a cfg ro d0) = ro"
  "api (Ui_new a cfg ro d0) = a"
  "fresh (dom (Ui_new a cfg ro d0)) = fresh d0 + 6"
  by (cases ro; simp add: Ui_new_def createFileButton_eq make_def fresh_ops Let_def)+

lemma same_block_refl: "same_block u u"
  by (simp add: same_block_def)

lemma same_block_trans: "same_block u u' \<Longrightarrow> same_block u' u'' \<Longrightarrow> same_block u u''"
  by (simp add: same_block_def)

lemma same_block_on_dom: "fresh (dom u) \<le> fresh (f (dom u)) \<Longrightarrow> same_block u (on_dom f u)"
  by (simp add: same_block_def on_dom_fields)

lemma same_block_toggleStatus: "same_block u (toggleStatus st u)"
  by (simp add: toggleStatus_eq same_block_on_dom fresh_ops)

lemma same_block_fillImage: "same_block u (fillImage url' h w u)"
  by (simp add: same_block_def fillImage_fields fillImage_fresh)









lemma same_block_ui_ops:
  "same_block u (showPreloader src u)" "same_block u (hidePreloader u)"
  "same_block u (removeFileButton u)" "same_block u (addFileButton u)"
  "same_block u (fillCaption s u)" "same_block u (snd (render td u))"
  by (simp_all add: showPreloader_def hidePreloader_def removeFileButton_def addFileButton_def
      fillCaption_def render_def toggleStatus_eq same_block_def on_dom_fields fresh_ops Let_def
      split: option.split)


section \<open>index.ts\<close>

lemma on_ui_fields: "ui (on_ui f t) = f (ui t)" "data (on_ui f t) = data t"
  "notifications (on_ui f t) = notifications t"
  by (simp_all add: on_ui_def)

lemma same_block_set_image: "same_block (ui t) (ui (set_image f t))"
  by (simp add: set_image_def Let_def same_block_refl on_ui_fields same_block_fillImage
      split: option.split)




lemma same_block_set_data: "same_block (ui t) (ui (set_data d t))"
proof -
  define t1 where "t1 = t\<lparr>data := (data t)\<lparr>
                  caption := Some (case caption d of None \<Rightarrow> [] | Some c \<Rightarrow> c),
                  height := height d, width := width d\<rparr>\<rparr>"
  have "same_block (ui t1) (ui (set_image (file' d) t1))"
    by (rule same_block_set_image)
  moreover have "same_block (ui (set_image (file' d) t1)) (fillCaption c (ui (set_image (file' d) t1)))" for c
    by (rule same_block_ui_ops)
  ultimately have "same_block (ui t1) (fillCaption c (ui (set_image (file' d) t1)))" for c
    by (rule same_block_trans)
  moreover have "ui t1 = ui t"
    by (simp add: t1_def)
  ultimately show ?thesis
    by (simp add: set_data_def Let_def on_ui_fields t1_def)
qed

lemma ImageTool_new_block:
  "config (ui (ImageTool_new d cfg a ro d0)) =
     \<lparr>captionPlaceholder = Some (i18n_t a (case captionPlaceholder cfg of
                                             None \<Rightarrow> ''Enter a caption'' | Some p \<Rightarrow> p)),
      buttonContent = buttonContent cfg,
      showCaption = Some (\<not> ro \<or> isNotEmpty (caption d))\<rparr>"
  "readOnly (ui (ImageTool_new d cfg a ro d0)) = ro"
  "caption_node (nodes (ui (ImageTool_new d cfg a ro d0))) = fresh d0 + 5"
  "fresh d0 + 6 \<le> fresh (dom (ui (ImageTool_new d cfg a ro d0)))"
  "wrapper (nodes (ui (ImageTool_new d cfg a ro d0))) = fresh d0"
  "imageContainer (nodes (ui (ImageTool_new d cfg a ro d0))) = fresh d0 + 1"
  "fileButton (nodes (ui (ImageTool_new d cfg a ro d0))) = fresh d0 + 2"
  "imagePreloader (nodes (ui (ImageTool_new d cfg a ro d0))) = fresh d0 + 4"
  "api (ui (ImageTool_new d cfg a ro d0)) = a"
proof -
  define t0 where "t0 = \<lparr>ui = Ui_new a
       \<lparr>captionPlaceholder = Some (i18n_t a (case captionPlaceholder cfg of
                                              None \<Rightarrow> ''Enter a caption'' | Some p \<Rightarrow> p)),
        buttonContent = buttonContent cfg,
        showCaption = Some (\<not> ro \<or> isNotEmpty (caption d))\<rparr> ro d0,
      data = \<lparr>caption = Some [], height = height d, width = width d,
              file' = Some \<lparr>url = Some [], extra = []\<rparr>\<rparr>,
      notifications = []\<rparr>"
  have new: "ImageTool_new d cfg a ro d0 = set_data d t0"
    by (simp add: ImageTool_new_def t0_def Let_def)
  have sb: "same_block (ui t0) (ui (ImageTool_new d cfg a ro d0))"
    unfolding new by (rule same_block_set_data)
  have "ui t0 = Ui_new a
       \<lparr>captionPlaceholder = Some (i18n_t a (case captionPlaceholder cfg of
                                              None \<Rightarrow> ''Enter a caption'' | Some p \<Rightarrow> p)),
        buttonContent = buttonContent cfg,
        showCaption = Some (\<not> ro \<or> isNotEmpty (caption d))\<rparr> ro d0"
    by (simp add: t0_def)
  with sb show
    "config (ui (ImageTool_new d cfg a ro d0)) =
     \<lparr>captionPlaceholder = Some (i18n_t a (case captionPlaceholder cfg of
                                             None \<Rightarrow> ''Enter a caption'' | Some p \<Rightarrow> p)),
      buttonContent = buttonContent cfg,
      showCaption = Some (\<not> ro \<or> isNotEmpty (caption d))\<rparr>"
    "readOnly (ui (ImageTool_new d cfg a ro d0)) = ro"
    "caption_node (nodes (ui (ImageTool_new d cfg a ro d0))) = fresh d0 + 5"
    "fresh d0 + 6 \<le> fresh (dom (ui (ImageTool_new d cfg a ro d0)))"
    "wrapper (nodes (ui (ImageTool_new d cfg a ro d0))) = fresh d0"
    "imageContainer (nodes (ui (ImageTool_new d cfg a ro d0))) = fresh d0 + 1"
    "fileButton (nodes (ui (ImageTool_new d cfg a ro d0))) = fresh d0 + 2"
    "imagePreloader (nodes (ui (ImageTool_new d cfg a ro d0))) = fresh d0 + 4"
    "api (ui (ImageTool_new d cfg a ro d0)) = a"
    by (simp_all add: same_block_def Ui_new_fields)
qed


lemma addEventListener_keeps:
  "tagName (store (addEventListener r ev h d) x) = tagName (store d x)"
  "classList (store (addEventListener r ev h d) x) = classList (store d x)"
  "props (store (addEventListener r ev h d) x) = props (store d x)"
  "style (store (addEventListener r ev h d) x) = style (store d x)"
  "children (store (addEventListener r ev h d) x) = children (store d x)"
  "parentNode (store (addEventListener r ev h d) x) = parentNode (store d x)"
  "textContent (store (addEventListener r ev h d) x) = textContent (store d x)"
  "clientWidth (store (addEventListener r ev h d) x) = clientWidth (store d x)"
  "clientHeight (store (addEventListener r ev h d) x) = clientHeight (store d x)"
  "boundingClientRect (store (addEventListener r ev h d) x) = boundingClientRect (store d x)"
  "naturalWidth (store (addEventListener r ev h d) x) = naturalWidth (store d x)"
  "naturalHeight (store (addEventListener r ev h d) x) = naturalHeight (store d x)"
  "videoWidth (store (addEventListener r ev h d) x) = videoWidth (store d x)"
  "videoHeight (store (addEventListener r ev h d) x) = videoHeight (store d x)"
  by (simp_all add: addEventListener_def removeEventListener_def store_upd upd_def Let_def split: option.split)

lemma removeEventListener_keeps:
  "tagName (store (removeEventListener r ev h d) x) = tagName (store d x)"
  "classList (store (removeEventListener r ev h d) x) = classList (store d x)"
  "props (store (removeEventListener r ev h d) x) = props (store d x)"
  "style (store (removeEventListener r ev h d) x) = style (store d x)"
  "children (store (removeEventListener r ev h d) x) = children (store d x)"
  "parentNode (store (removeEventListener r ev h d) x) = parentNode (store d x)"
  "textContent (store (removeEventListener r ev h d) x) = textContent (store d x)"
  "clientWidth (store (removeEventListener r ev h d) x) = clientWidth (store d x)"
  "clientHeight (store (removeEventListener r ev h d) x) = clientHeight (store d x)"
  "boundingClientRect (store (removeEventListener r ev h d) x) = boundingClientRect (store d x)"
  "naturalWidth (store (removeEventListener r ev h d) x) = naturalWidth (store d x)"
  "naturalHeight (store (removeEventListener r ev h d) x) = naturalHeight (store d x)"
  "videoWidth (store (removeEventListener r ev h d) x) = videoWidth (store d x)"
  "videoHeight (store (removeEventListener r ev h d) x) = videoHeight (store d x)"
  by (simp_all add: removeEventListener_def removeEventListener_def store_upd upd_def Let_def split: option.split)

lemma removeOldListener_keeps:
  "tagName (store (removeOldListener old el ev d) x) = tagName (store d x)"
  "classList (store (removeOldListener old el ev d) x) = classList (store d x)"
  "props (store (removeOldListener old el ev d) x) = props (store d x)"
  "style (store (removeOldListener old el ev d) x) = style (store d x)"
  "children (store (removeOldListener old el ev d) x) = children (store d x)"
  "parentNode (store (removeOldListener old el ev d) x) = parentNode (store d x)"
  "textContent (store (removeOldListener old el ev d) x) = textContent (store d x)"
  "clientWidth (store (removeOldListener old el ev d) x) = clientWidth (store d x)"
  "clientHeight (store (removeOldListener old el ev d) x) = clientHeight (store d x)"
  "boundingClientRect (store (removeOldListener old el ev d) x) = boundingClientRect (store d x)"
  "naturalWidth (store (removeOldListener old el ev d) x) = naturalWidth (store d x)"
  "naturalHeight (store (removeOldListener old el ev d) x) = naturalHeight (store d x)"
  "videoWidth (store (removeOldListener old el ev d) x) = videoWidth (store d x)"
  "videoHeight (store (removeOldListener old el ev d) x) = videoHeight (store d x)"
  by (simp_all add: removeOldListener_def removeEventListener_def store_upd upd_def Let_def split: option.split)

lemma setStyle_keeps:
  "tagName (store (setStyle r k v d) x) = tagName (store d x)"
  "classList (store (setStyle r k v d) x) = classList (store d x)"
  "props (store (setStyle r k v d) x) = props (store d x)"
  "children (store (setStyle r k v d) x) = children (store d x)"
  "parentNode (store (setStyle r k v d) x) = parentNode (store d x)"
  "listeners (store (setStyle r k v d) x) = listeners (store d x)"
  "textContent (store (setStyle r k v d) x) = textContent (store d x)"
  "clientWidth (store (setStyle r k v d) x) = clientWidth (store d x)"
  "clientHeight (store (setStyle r k v d) x) = clientHeight (store d x)"
  "boundingClientRect (store (setStyle r k v d) x) = boundingClientRect (store d x)"
  "naturalWidth (store (setStyle r k v d) x) = naturalWidth (store d x)"
  "naturalHeight (store (setStyle r k v d) x) = naturalHeight (store d x)"
  "videoWidth (store (setStyle r k v d) x) = videoWidth (store d x)"
  "videoHeight (store (setStyle r k v d) x) = videoHeight (store d x)"
  by (simp_all add: setStyle_def removeEventListener_def store_upd upd_def Let_def split: option.split)

lemma setProp_keeps:
  "tagName (store (setProp r k pv d) x) = tagName (store d x)"
  "classList (store (setProp r k pv d) x) = classList (store d x)"
  "style (store (setProp r k pv d) x) = style (store d x)"
  "children (store (setProp r k pv d) x) = children (store d x)"
  "parentNode (store (setProp r k pv d) x) = parentNode (store d x)"
  "listeners (store (setProp r k pv d) x) = listeners (store d x)"
  "textContent (store (setProp r k pv d) x) = textContent (store d x)"
  "clientWidth (store (setProp r k pv d) x) = clientWidth (store d x)"
  "clientHeight (store (setProp r k pv d) x) = clientHeight (store d x)"
  "boundingClientRect (store (setProp r k pv d) x) = boundingClientRect (store d x)"
  "naturalWidth (store (setProp r k pv d) x) = naturalWidth (store d x)"
  "naturalHeight (store (setProp r k pv d) x) = naturalHeight (store d x)"
  "videoWidth (store (setProp r k pv d) x) = videoWidth (store d x)"
  "videoHeight (store (setProp r k pv d) x) = videoHeight (store d x)"
  by (simp_all add: setProp_def removeEventListener_def store_upd upd_def Let_def split: option.split)

lemma addClass_keeps:
  "tagName (store (addClass r cn d) x) = tagName (store d x)"
  "props (store (addClass r cn d) x) = props (store d x)"
  "style (store (addClass r cn d) x) = style (store d x)"
  "children (store (addClass r cn d) x) = children (store d x)"
  "parentNode (store (addClass r cn d) x) = parentNode (store d x)"
  "listeners (store (addClass r cn d) x) = listeners (store d x)"
  "textContent (store (addClass r cn d) x) = textContent (store d x)"
  "clientWidth (store (addClass r cn d) x) = clientWidth (store d x)"
  "clientHeight (store (addClass r cn d) x) = clientHeight (store d x)"
  "boundingClientRect (store (addClass r cn d) x) = boundingClientRect (store d x)"
  "naturalWidth (store (addClass r cn d) x) = naturalWidth (store d x)"
  "naturalHeight (store (addClass r cn d) x) = naturalHeight (store d x)"
  "videoWidth (store (addClass r cn d) x) = videoWidth (store d x)"
  "videoHeight (store (addClass r cn d) x) = videoHeight (store d x)"
  by (simp_all add: addClass_def removeEventListener_def store_upd upd_def Let_def split: option.split)

lemma toggleClass_keeps:
  "tagName (store (toggleClass r cn b d) x) = tagName (store d x)"
  "props (store (toggleClass r cn b d) x) = props (store d x)"
  "style (store (toggleClass r cn b d) x) = style (store d x)"
  "children (store (toggleClass r cn b d) x) = children (store d x)"
  "parentNode (store (toggleClass r cn b d) x) = parentNode (store d x)"
  "listeners (store (toggleClass r cn b d) x) = listeners (store d x)"
  "textContent (store (toggleClass r cn b d) x) = textContent (store d x)"
  "clientWidth (store (toggleClass r cn b d) x) = clientWidth (store d x)"
  "clientHeight (store (toggleClass r cn b d) x) = clientHeight (store d x)"
  "boundingClientRect (store (toggleClass r cn b d) x) = boundingClientRect (store d x)"
  "naturalWidth (store (toggleClass r cn b d) x) = naturalWidth (store d x)"
  "naturalHeight (store (toggleClass r cn b d) x) = naturalHeight (store d x)"
  "videoWidth (store (toggleClass r cn b d) x) = videoWidth (store d x)"
  "videoHeight (store (toggleClass r cn b d) x) = videoHeight (store d x)"
  by (simp_all add: toggleClass_def removeEventListener_def store_upd upd_def Let_def split: option.split)

lemma setTextContent_keeps:
  "tagName (store (setTextContent r s d) x) = tagName (store d x)"
  "classList (store (setTextContent r s d) x) = classList (store d x)"
  "props (store (setTextContent r s d) x) = props (store d x)"
  "style (store (setTextContent r s d) x) = style (store d x)"
  "children (store (setTextContent r s d) x) = children (store d x)"
  "parentNode (store (setTextContent r s d) x) = parentNode (store d x)"
  "listeners (store (setTextContent r s d) x) = listeners (store d x)"
  "clientWidth (store (setTextContent r s d) x) = clientWidth (store d x)"
  "clientHeight (store (setTextContent r s d) x) = clientHeight (store d x)"
  "boundingClientRect (store (setTextContent r s d) x) = boundingClientRect (store d x)"
  "naturalWidth (store (setTextContent r s d) x) = naturalWidth (store d x)"
  "naturalHeight (store (setTextContent r s d) x) = naturalHeight (store d x)"
  "videoWidth (store (setTextContent r s d) x) = videoWidth (store d x)"
  "videoHeight (store (setTextContent r s d) x) = videoHeight (store d x)"
  by (simp_all add: setTextContent_def removeEventListener_def store_upd upd_def Let_def split: option.split)

lemma layout_keeps:
  "tagName (store (layout r cw ch rect d) x) = tagName (store d x)"
  "classList (store (layout r cw ch rect d) x) = classList (store d x)"
  "props (store (layout r cw ch rect d) x) = props (store d x)"
  "style (store (layout r cw ch rect d) x) = style (store d x)"
  "children (store (layout r cw ch rect d) x) = children (store d x)"
  "parentNode (store (layout r cw ch rect d) x) = parentNode (store d x)"
  "listeners (store (layout r cw ch rect d) x) = listeners (store d x)"
  "textContent (store (layout r cw ch rect d) x) = textContent (store d x)"
  "naturalWidth (store (layout r cw ch rect d) x) = naturalWidth (store d x)"
  "naturalHeight (store (layout r cw ch rect d) x) = naturalHeight (store d x)"
  "videoWidth (store (layout r cw ch rect d) x) = videoWidth (store d x)"
  "videoHeight (store (layout r cw ch rect d) x) = videoHeight (store d x)"
  by (simp_all add: layout_def removeEventListener_def store_upd upd_def Let_def split: option.split)

lemma decoded_keeps:
  "tagName (store (decoded r nw nh d) x) = tagName (store d x)"
  "classList (store (decoded r nw nh d) x) = classList (store d x)"
  "props (store (decoded r nw nh d) x) = props (store d x)"
  "style (store (decoded r nw nh d) x) = style (store d x)"
  "children (store (decoded r nw nh d) x) = children (store d x)"
  "parentNode (store (decoded r nw nh d) x) = parentNode (store d x)"
  "listeners (store (decoded r nw nh d) x) = listeners (store d x)"
  "textContent (store (decoded r nw nh d) x) = textContent (store d x)"
  "clientWidth (store (decoded r nw nh d) x) = clientWidth (store d x)"
  "clientHeight (store (decoded r nw nh d) x) = clientHeight (store d x)"
  "boundingClientRect (store (decoded r nw nh d) x) = boundingClientRect (store d x)"
  by (simp_all add: decoded_def removeEventListener_def store_upd upd_def Let_def split: option.split)

lemma appendChild_keeps:
  "tagName (store (appendChild p c d) x) = tagName (store d x)"
  "classList (store (appendChild p c d) x) = classList (store d x)"
  "props (store (appendChild p c d) x) = props (store d x)"
  "style (store (appendChild p c d) x) = style (store d x)"
  "listeners (store (appendChild p c d) x) = listeners (store d x)"
  "textContent (store (appendChild p c d) x) = textContent (store d x)"
  "clientWidth (store (appendChild p c d) x) = clientWidth (store d x)"
  "clientHeight (store (appendChild p c d) x) = clientHeight (store d x)"
  "boundingClientRect (store (appendChild p c d) x) = boundingClientRect (store d x)"
  "naturalWidth (store (appendChild p c d) x) = naturalWidth (store d x)"
  "naturalHeight (store (appendChild p c d) x) = naturalHeight (store d x)"
  "videoWidth (store (appendChild p c d) x) = videoWidth (store d x)"
  "videoHeight (store (appendChild p c d) x) = videoHeight (store d x)"
  by (simp_all add: appendChild_def removeEventListener_def store_upd upd_def Let_def split: option.split)

lemma removeChild_keeps:
  "tagName (store (removeChild p c d) x) = tagName (store d x)"
  "classList (store (removeChild p c d) x) = classList (store d x)"
  "props (store (removeChild p c d) x) = props (store d x)"
  "style (store (removeChild p c d) x) = style (store d x)"
  "listeners (store (removeChild p c d) x) = listeners (store d x)"
  "textContent (store (removeChild p c d) x) = textContent (store d x)"
  "clientWidth (store (removeChild p c d) x) = clientWidth (store d x)"
  "clientHeight (store (removeChild p c d) x) = clientHeight (store d x)"
  "boundingClientRect (store (removeChild p c d) x) = boundingClientRect (store d x)"
  "naturalWidth (store (removeChild p c d) x) = naturalWidth (store d x)"
  "naturalHeight (store (removeChild p c d) x) = naturalHeight (store d x)"
  "videoWidth (store (removeChild p c d) x) = videoWidth (store d x)"
  "videoHeight (store (removeChild p c d) x) = videoHeight (store d x)"
  by (simp_all add: removeChild_def removeEventListener_def store_upd upd_def Let_def split: option.split)

lemma reserve_keeps:
  "tagName (store (reserve d) x) = tagName (store d x)"
  "classList (store (reserve d) x) = classList (store d x)"
  "props (store (reserve d) x) = props (store d x)"
  "style (store (reserve d) x) = style (store d x)"
  "children (store (reserve d) x) = children (store d x)"
  "parentNode (store (reserve d) x) = parentNode (store d x)"
  "listeners (store (reserve d) x) = listeners (store d x)"
  "textContent (store (reserve d) x) = textContent (store d x)"
  "clientWidth (store (reserve d) x) = clientWidth (store d x)"
  "clientHeight (store (reserve d) x) = clientHeight (store d x)"
  "boundingClientRect (store (reserve d) x) = boundingClientRect (store d x)"
  "naturalWidth (store (reserve d) x) = naturalWidth (store d x)"
  "naturalHeight (store (reserve d) x) = naturalHeight (store d x)"
  "videoWidth (store (reserve d) x) = videoWidth (store d x)"
  "videoHeight (store (reserve d) x) = videoHeight (store d x)"
  by (simp_all add: reserve_def removeEventListener_def store_upd upd_def Let_def split: option.split)

lemma addDocumentListener_keeps:
  "tagName (store (addDocumentListener ev h d) x) = tagName (store d x)"
  "classList (store (addDocumentListener ev h d) x) = classList (store d x)"
  "props (store (addDocumentListener ev h d) x) = props (store d x)"
  "style (store (addDocumentListener ev h d) x) = style (store d x)"
  "children (store (addDocumentListener ev h d) x) = children (store d x)"
  "parentNode (store (addDocumentListener ev h d) x) = parentNode (store d x)"
  "listeners (store (addDocumentListener ev h d) x) = listeners (store d x)"
  "textContent (store (addDocumentListener ev h d) x) = textContent (store d x)"
  "clientWidth (store (addDocumentListener ev h d) x) = clientWidth (store d x)"
  "clientHeight (store (addDocumentListener ev h d) x) = clientHeight (store d x)"
  "boundingClientRect (store (addDocumentListener ev h d) x) = boundingClientRect (store d x)"
  "naturalWidth (store (addDocumentListener ev h d) x) = naturalWidth (store d x)"
  "naturalHeight (store (addDocumentListener ev h d) x) = naturalHeight (store d x)"
  "videoWidth (store (addDocumentListener ev h d) x) = videoWidth (store d x)"
  "videoHeight (store (addDocumentListener ev h d) x) = videoHeight (store d x)"
  by (simp_all add: addDocumentListener_def removeEventListener_def store_upd upd_def Let_def split: option.split)

lemma removeDocumentListener_keeps:
  "tagName (store (removeDocumentListener ev h d) x) = tagName (store d x)"
  "classList (store (removeDocumentListener ev h d) x) = classList (store d x)"
  "props (store (removeDocumentListener ev h d) x) = props (store d x)"
  "style (store (removeDocumentListener ev h d) x) = style (store d x)"
  "children (store (removeDocumentListener ev h d) x) = children (store d x)"
  "parentNode (store (removeDocumentListener ev h d) x) = parentNode (store d x)"
  "listeners (store (removeDocumentListener ev h d) x) = listeners (store d x)"
  "textContent (store (removeDocumentListener ev h d) x) = textContent (store d x)"
  "clientWidth (store (removeDocumentListener ev h d) x) = clientWidth (store d x)"
  "clientHeight (store (removeDocumentListener ev h d) x) = clientHeight (store d x)"
  "boundingClientRect (store (removeDocumentListener ev h d) x) = boundingClientRect (store d x)"
  "naturalWidth (store (removeDocumentListener ev h d) x) = naturalWidth (store d x)"
  "naturalHeight (store (removeDocumentListener ev h d) x) = naturalHeight (store d x)"
  "videoWidth (store (removeDocumentListener ev h d) x) = videoWidth (store d x)"
  "videoHeight (store (removeDocumentListener ev h d) x) = videoHeight (store d x)"
  by (simp_all add: removeDocumentListener_def removeEventListener_def store_upd upd_def Let_def split: option.split)

lemma insertElement_fields:
  "tagName (store (insertElement e d) x) = (if x = fresh d then tagName e else tagName (store d x))"
  "classList (store (insertElement e d) x) = (if x = fresh d then classList e else classList (store d x))"
  "props (store (insertElement e d) x) = (if x = fresh d then props e else props (store d x))"
  "style (store (insertElement e d) x) = (if x = fresh d then style e else style (store d x))"
  "children (store (insertElement e d) x) = (if x = fresh d then children e else children (store d x))"
  "parentNode (store (insertElement e d) x) = (if x = fresh d then parentNode e else parentNode (store d x))"
  "listeners (store (insertElement e d) x) = (if x = fresh d then listeners e else listeners (store d x))"
  "textContent (store (insertElement e d) x) = (if x = fresh d then textContent e else textContent (store d x))"
  "clientWidth (store (insertElement e d) x) = (if x = fresh d then clientWidth e else clientWidth (store d x))"
  "clientHeight (store (insertElement e d) x) = (if x = fresh d then clientHeight e else clientHeight (store d x))"
  "boundingClientRect (store (insertElement e d) x) = (if x = fresh d then boundingClientRect e else boundingClientRect (store d x))"
  "naturalWidth (store (insertElement e d) x) = (if x = fresh d then naturalWidth e else naturalWidth (store d x))"
  "naturalHeight (store (insertElement e d) x) = (if x = fresh d then naturalHeight e else naturalHeight (store d x))"
  "videoWidth (store (insertElement e d) x) = (if x = fresh d then videoWidth e else videoWidth (store d x))"
  "videoHeight (store (insertElement e d) x) = (if x = fresh d then videoHeight e else videoHeight (store d x))"
  by (simp_all add: insertElement_def)

lemmas keeps = addEventListener_keeps removeEventListener_keeps removeOldListener_keeps setStyle_keeps setProp_keeps addClass_keeps toggleClass_keeps setTextContent_keeps layout_keeps decoded_keeps appendChild_keeps removeChild_keeps reserve_keeps addDocumentListener_keeps removeDocumentListener_keeps

lemma parentNode_appendChild':
  "parentNode (store (appendChild p c d) x) = (if x = c then Some p else parentNode (store d x))"
  by (simp add: appendChild_def Let_def store_upd split: option.split)

lemma children_appendChild:
  "children (store (appendChild p c d) x) =
     (if x = p
      then (if parentNode (store d c) = Some x then removeAll c (children (store d x))
            else children (store d x)) @ [c]
      else (if parentNode (store d c) = Some x then removeAll c (children (store d x))
            else children (store d x)))"
  by (simp add: appendChild_def Let_def store_upd split: option.split)

lemma children_appendChild_fresh:
  "parentNode (store d c) = None \<Longrightarrow>
   children (store (appendChild p c d) x) =
     (if x = p then children (store d p) @ [c] else children (store d x))"
  by (simp add: children_appendChild)

lemma listeners_addEventListener:
  "listeners (store (addEventListener r ev h d) x) =
     (if x = r
      then (if (ev, h) \<in> set (listeners (store d r)) then listeners (store d r)
            else listeners (store d r) @ [(ev, h)])
      else listeners (store d x))"
  by (simp add: addEventListener_def store_upd)

lemma classList_addClass:
  "classList (store (addClass r cn d) x) =
     (if x = r then classList_add (classList (store d r)) [cn] else classList (store d x))"
  by (simp add: addClass_def store_upd)

lemma make_element_fields:
  "tagName (make_element tag cls attrs) = tag"
  "children (make_element tag cls attrs) = []"
  "parentNode (make_element tag cls attrs) = None"
  "classList (make_element tag (ClassArray cs) attrs) = classList_add [] cs"
  "props (make_element tag cls attrs) = foldl (\<lambda>ps (k, v). AList.update k v ps) [] attrs"
  "style (make_element tag cls attrs) = (\<lambda>_. CssText [])"
  "clientWidth (make_element tag cls attrs) = 0"
  "clientHeight (make_element tag cls attrs) = 0"
  by (simp_all add: make_element_def createElement_def Let_def split: classNames.split)

lemmas lookup = keeps insertElement_fields parentNode_appendChild' children_appendChild_fresh
  listeners_addEventListener classList_addClass make_element_fields listeners_make_element fresh_ops

text \<open>The stages of \<open>fillImage\<close>.\<close>

lemma filled_media_old:
  assumes "x < fresh (dom u)"
  shows "parentNode (store (filled_media url' w u) x) = parentNode (store (dom u) x)"
    and "listeners (store (filled_media url' w u) x) = listeners (store (dom u) x)"
  using assms by (simp_all add: filled_media_def Let_def lookup)

lemma filled_media_new:
  "listeners (store (filled_media url' w u) (fresh (dom u))) =
     [(media_event url', (fresh (dom u) + 1, ImageLoadHandler (media_tag url') w)),
      (''error'', (fresh (dom u) + 2, ImageErrorHandler url'))]"
  "tagName (store (filled_media url' w u) (fresh (dom u))) = media_tag url'"
  "props (store (filled_media url' w u) (fresh (dom u))) = media_attributes url'"
  "parentNode (store (filled_media url' w u) (fresh (dom u))) = Some (fresh (dom u) + 4)"
  "classList (store (filled_media url' w u) (fresh (dom u) + 3)) = [''content-wrapper'']"
  by (simp_all add: filled_media_def Let_def lookup media_attributes_def media_event_def)


lemma with_resizer_keeps:
  assumes "m = fresh d"
  shows "listeners (store (with_resizer al ic m d) x) =
           (if x = m then [(''mousedown'', (m + 2, MouseDownHandler al))]
            else if x = m + 1 then [] else listeners (store d x))"
    and "parentNode (store (with_resizer al ic m d) x) =
           (if x = m then Some ic else if x = m + 1 then Some m else parentNode (store d x))"
    and "tagName (store (with_resizer al ic m d) x) =
           (if x = m \<or> x = m + 1 then ''div'' else tagName (store d x))"
    and "props (store (with_resizer al ic m d) x) =
           (if x = m \<or> x = m + 1 then [] else props (store d x))"
    and "x < m \<Longrightarrow> classList (store (with_resizer al ic m d) x) = classList (store d x)"
    and "x < m \<Longrightarrow> x \<noteq> ic \<Longrightarrow> children (store (with_resizer al ic m d) x) = children (store d x)"
  using assms by (simp_all add: with_resizer_def lookup)

lemma filled_resizers_keeps:
  assumes "x < fresh (dom u) + 5" "fresh d = fresh (dom u) + 5"
  shows "listeners (store (filled_resizers u d) x) = listeners (store d x)"
    and "parentNode (store (filled_resizers u d) x) = parentNode (store d x)"
    and "tagName (store (filled_resizers u d) x) = tagName (store d x)"
    and "props (store (filled_resizers u d) x) = props (store d x)"
    and "x \<noteq> imageContainer (nodes u) \<Longrightarrow>
         classList (store (filled_resizers u d) x) = classList (store d x)"
    and "x \<noteq> fresh (dom u) + 4 \<Longrightarrow>
         children (store (filled_resizers u d) x) = children (store d x)"
  using assms
  by (simp_all add: filled_resizers_def Let_def with_resizer_keeps fresh_with_resizer lookup)

lemma fresh_filled_resizers:
  "fresh (filled_resizers u d) = fresh d + (if readOnly u then 0 else 6)"
  by (simp add: filled_resizers_def Let_def fresh_with_resizer lookup)

lemma filled_caption_keeps:
  "listeners (store (filled_caption u d) x) = listeners (store d x)"
  "tagName (store (filled_caption u d) x) = tagName (store d x)"
  "props (store (filled_caption u d) x) = props (store d x)"
  "classList (store (filled_caption u d) x) = classList (store d x)"
  "parentNode (store (filled_caption u d) x) =
     (if captionShown u \<and> x = caption_node (nodes u) then Some (fresh (dom u) + 3)
      else parentNode (store d x))"
  by (simp_all add: filled_caption_def lookup)


text \<open>What \<open>fillImage\<close> does to the elements that were there, and what it builds.\<close>

lemma fillImage_old:
  assumes "x < fresh (dom u)"
  shows "listeners (store (dom (fillImage url' h w u)) x) = listeners (store (dom u) x)"
    and "parentNode (store (dom (fillImage url' h w u)) x) =
           (if captionShown u \<and> x = caption_node (nodes u) then Some (fresh (dom u) + 3)
            else parentNode (store (dom u) x))"
  using assms
  by (simp_all add: fillImage_eq filled_caption_keeps filled_resizers_keeps fresh_filled_media
      filled_media_old)

lemma fillImage_new:
  "listeners (store (dom (fillImage url' h w u)) (fresh (dom u))) =
     [(media_event url', (fresh (dom u) + 1, ImageLoadHandler (media_tag url') w)),
      (''error'', (fresh (dom u) + 2, ImageErrorHandler url'))]"
  "tagName (store (dom (fillImage url' h w u)) (fresh (dom u))) = media_tag url'"
  "props (store (dom (fillImage url' h w u)) (fresh (dom u))) = media_attributes url'"
  "parentNode (store (dom (fillImage url' h w u)) (fresh (dom u))) =
     (if captionShown u \<and> fresh (dom u) = caption_node (nodes u) then Some (fresh (dom u) + 3)
      else Some (fresh (dom u) + 4))"
  by (simp_all add: fillImage_eq filled_caption_keeps filled_resizers_keeps fresh_filled_media
      filled_media_new)



section \<open>Strings of numbers\<close>

lemma digits_nonempty: "digits n \<noteq> []"
  by (subst digits.simps) simp

lemma digits_zero_iff: "digits n = ''0'' \<longleftrightarrow> n = 0"
proof (cases "n < 10")
  case True
  then have "n \<in> {0,1,2,3,4,5,6,7,8,9}" by auto
  then show ?thesis
    by (subst digits.simps) (auto simp: digitChar_def)
next
  case False
  have "length (digits n) \<ge> 2"
    using False digits_nonempty [of "n div 10"]
    by (subst digits.simps) (cases "digits (n div 10)"; simp)
  with False show ?thesis by auto
qed

lemma String_zero_iff: "String n = ''0'' \<longleftrightarrow> n = 0"
  by (auto simp: String_def digits_zero_iff)

lemma String_examples: "String 200 = ''200''" "String 100 = ''100''" "String 50 = ''50''"
  by (simp_all add: String_def digits.simps digitChar_def)

section \<open>save\<close>

lemma save_width:
  "width (fst (save t)) =
     (if 0 < renderedWidth t \<and> 0 < renderedHeight t then Some (String (renderedWidth t))
      else width (data t))"
  by (simp add: save_def renderedWidth_def renderedHeight_def Let_def)

lemma save_height:
  "height (fst (save t)) =
     (if 0 < renderedWidth t \<and> 0 < renderedHeight t then Some (String (renderedHeight t))
      else height (data t))"
  by (simp add: save_def renderedWidth_def renderedHeight_def Let_def)

lemma save_returns_data: "data (snd (save t)) = fst (save t)" "ui (snd (save t)) = ui t"
  by (simp_all add: save_def Let_def)

lemma set_image_url:
  "url g = Some s \<Longrightarrow> s \<noteq> [] \<Longrightarrow>
   ui (set_image (Some g) t) = fillImage s (height (data t)) (width (data t)) (ui t)"
  "data (set_image (Some g) t) = (data t)\<lparr>file' := Some g\<rparr>"
  "notifications (set_image f t) = notifications t"
  by (simp_all add: set_image_def Let_def on_ui_fields split: option.split)

lemma ImageTool_new_data:
  "width (data (ImageTool_new d cfg a ro d0)) = width d"
  "height (data (ImageTool_new d cfg a ro d0)) = height d"
  by (simp_all add: ImageTool_new_def set_data_def set_image_def Let_def on_ui_fields
      split: option.split)

lemma demo_filled_facts:
  "imageEl (nodes (ui demo_filled)) = Some demo_picture"
  "renderedWidth demo_filled = 200" "renderedHeight demo_filled = 100"
  "width (data demo_filled) = None" "height (data demo_filled) = None"
  by (simp_all add: demo_filled_def demo_picture_def onUpload_def demo_response_def set_image_url
      on_ui_fields on_dom_fields fillImage_fields store_ops renderedWidth_def renderedHeight_def
      demo_tool_def ImageTool_new_data empty_data_def)

lemma demo_saved_facts:
  "width (fst (save demo_filled)) = Some ''200''" "height (fst (save demo_filled)) = Some ''100''"
  by (simp_all add: save_width save_height demo_filled_facts String_examples)

lemma demo_detached_facts:
  "renderedWidth demo_detached = 0" "renderedHeight demo_detached = 0"
  "width (data demo_detached) = Some ''200''" "height (data demo_detached) = Some ''100''"
  by (simp_all add: demo_detached_def on_ui_fields on_dom_fields save_returns_data store_ops
      renderedWidth_def renderedHeight_def demo_filled_facts demo_saved_facts)

text \<open>
  Claim C1. Let the rendered width and height be what \<open>save\<close> reads from the live media
  element (zero when there is none). If one of them is not positive, \<open>save\<close> returns the
  stored \<open>width\<close> and \<open>height\<close> unchanged; it changes one of them only when both are
  strictly positive; and it never introduces the string \<open>0\<close>: a \<open>0\<close> in the result was
  stored before. The object returned is the stored block data.
\<close>

theorem save_keeps_dimensions_on_zero_size:
  "(imageEl (nodes (ui t)) = None \<longrightarrow> renderedWidth t = 0 \<and> renderedHeight t = 0)
   \<and> (renderedWidth t \<le> 0 \<or> renderedHeight t \<le> 0 \<longrightarrow>
        width (fst (save t)) = width (data t) \<and> height (fst (save t)) = height (data t))
   \<and> (width (fst (save t)) \<noteq> width (data t) \<or> height (fst (save t)) \<noteq> height (data t) \<longrightarrow>
        0 < renderedWidth t \<and> 0 < renderedHeight t)
   \<and> (width (fst (save t)) = Some ''0'' \<longrightarrow> width (data t) = Some ''0'')
   \<and> (height (fst (save t)) = Some ''0'' \<longrightarrow> height (data t) = Some ''0'')
   \<and> data (snd (save t)) = fst (save t)"
  by (auto simp: save_width save_height save_returns_data String_zero_iff
      renderedWidth_def renderedHeight_def split: if_splits)

theorem save_keeps_dimensions_on_zero_size_witness:
  "renderedWidth demo_detached \<le> 0
   \<and> width (data demo_detached) = Some ''200'' \<and> height (data demo_detached) = Some ''100''
   \<and> width (fst (save demo_detached)) = Some ''200''
   \<and> height (fst (save demo_detached)) = Some ''100''
   \<and> width (fst (save demo_filled)) \<noteq> width (data demo_filled)
   \<and> 0 < renderedWidth demo_filled \<and> 0 < renderedHeight demo_filled"
  using save_keeps_dimensions_on_zero_size [of demo_detached]
    save_keeps_dimensions_on_zero_size [of demo_filled]
  by (simp add: demo_detached_facts demo_filled_facts demo_saved_facts)

lemma demo_tool_refs:
  "imageContainer (nodes (ui demo_tool)) < demo_picture"
  "wrapper (nodes (ui demo_tool)) < demo_picture"
  "caption_node (nodes (ui demo_tool)) < demo_picture"
  using ImageTool_new_block(4) [of empty_document empty_data demo_config demo_api False]
  by (simp_all add: demo_picture_def demo_tool_def ImageTool_new_block(3,5,6))

lemma demo_container:
  "clientWidth (store (dom (ui demo_filled)) (imageContainer (nodes (ui demo_filled)))) = 400"
  using demo_tool_refs(1)
  by (simp add: demo_filled_def onUpload_def demo_response_def set_image_url
      on_ui_fields on_dom_fields fillImage_fields store_ops)

lemma spec_percentage_example: "spec_percentage 200 400 = ''50''"
proof -
  have "Math_round (of_int 200 / of_int 400 * 100) = 50"
    by (simp add: Math_round_def floor_eq_iff)
  then show ?thesis
    by (simp add: spec_percentage_def String_examples)
qed

text \<open>
  Claim C2, as stated, fails: with the picture rendered 200 wide and 100 high in a
  container 400 wide, the specification expects the width \<open>50\<close> and no height; \<open>save\<close>
  returns the width \<open>200\<close> and the height \<open>100\<close>.
\<close>

theorem save_percentage_counterexample:
  "renderedWidth demo_filled = 200
   \<and> clientWidth (store (dom (ui demo_filled)) (imageContainer (nodes (ui demo_filled)))) = 400
   \<and> spec_percentage 200 400 = ''50''
   \<and> width (fst (save demo_filled)) = Some ''200''
   \<and> height (fst (save demo_filled)) = Some ''100''"
  by (simp add: demo_filled_facts demo_container demo_saved_facts spec_percentage_example)

text \<open>
  Claim C2, amended. When the rendered width and height are both strictly positive,
  \<open>save\<close> persists the rendered width in pixels as a decimal string, whatever the width of
  the container, and the rendered height in pixels as a decimal string.
\<close>

theorem save_writes_pixel_dimensions:
  assumes "0 < renderedWidth t" "0 < renderedHeight t"
  shows "width (fst (save t)) = Some (String (renderedWidth t))
         \<and> height (fst (save t)) = Some (String (renderedHeight t))"
  using assms by (simp add: save_width save_height)

theorem save_writes_pixel_dimensions_witness:
  "0 < renderedWidth demo_filled \<and> 0 < renderedHeight demo_filled
   \<and> width (fst (save demo_filled)) = Some ''200''
   \<and> height (fst (save demo_filled)) = Some ''100''"
  using save_writes_pixel_dimensions [of demo_filled]
  by (simp add: demo_filled_facts String_examples)

section \<open>validate\<close>

text \<open>
  Claim C9. On data with a \<open>file\<close> object, \<open>validate\<close> returns \<open>false\<close> when the \<open>url\<close> is
  missing or the empty string, and \<open>true\<close> when it is a non-empty string.
\<close>

theorem validate_checks_url:
  assumes "file' savedData = Some f"
  shows "(url f = None \<or> url f = Some [] \<longrightarrow> validate savedData = Inr False)
         \<and> (\<forall>s. url f = Some s \<and> s \<noteq> [] \<longrightarrow> validate savedData = Inr True)"
  using assms by (auto simp: validate_def)

theorem validate_checks_url_witness:
  "validate (empty_data\<lparr>file' := Some \<lparr>url = None, extra = []\<rparr>\<rparr>) = Inr False
   \<and> validate (empty_data\<lparr>file' := Some \<lparr>url = Some [], extra = []\<rparr>\<rparr>) = Inr False
   \<and> validate (empty_data\<lparr>file' := Some \<lparr>url = Some ''https://x/y.png'', extra = []\<rparr>\<rparr>) = Inr True"
  using validate_checks_url [of "empty_data\<lparr>file' := Some \<lparr>url = None, extra = []\<rparr>\<rparr>"
        "\<lparr>url = None, extra = []\<rparr>"]
    validate_checks_url [of "empty_data\<lparr>file' := Some \<lparr>url = Some [], extra = []\<rparr>\<rparr>"
        "\<lparr>url = Some [], extra = []\<rparr>"]
    validate_checks_url [of "empty_data\<lparr>file' := Some \<lparr>url = Some ''https://x/y.png'', extra = []\<rparr>\<rparr>"
        "\<lparr>url = Some ''https://x/y.png'', extra = []\<rparr>"]
  by simp

text \<open>
  Claim C10. On data without the \<open>file\<close> field, \<open>validate\<close> does not return \<open>false\<close>: reading
  \<open>savedData.file.url\<close> throws a \<open>TypeError\<close>.
\<close>

theorem validate_faults_without_file:
  assumes "file' savedData = None"
  shows "validate savedData = Inl TypeError \<and> validate savedData \<noteq> Inr False"
  using assms by (simp add: validate_def)

theorem validate_faults_without_file_witness:
  "file' empty_data = None \<and> validate empty_data = Inl TypeError \<and> validate empty_data \<noteq> Inr False"
  using validate_faults_without_file [of empty_data]
  by (simp add: empty_data_def)

section \<open>resizeImage\<close>

lemma style_setStyle:
  "style (store (setStyle r k v d) x) =
     (if x = r then (style (store d r))(k := v) else style (store d x))"
  by (simp add: setStyle_def store_upd)

text \<open>
  Claim C4. During a resize, on a displayed element whose bounding rectangle is \<open>rect\<close>,
  \<open>resizeImage\<close> sets the \<open>width\<close> style to \<open>max(rect.width + offset, 30)\<close> pixels, the offset
  being \<open>rect.left - clientX\<close> for the left handle and \<open>clientX - rect.right\<close> for the right
  one, and the \<open>height\<close> style to \<open>auto\<close>; a width below 30 becomes 30. Nothing in this
  depends on the tag of the element.
\<close>

theorem resizeImage_sets_width:
  assumes "isResizing u" "imageEl (nodes u) = Some el"
  shows "style (store (dom (resizeImage clientX al u)) el) ''width'' =
           CssPx (max (rect_width (boundingClientRect (store (dom u) el))
                        + (case al of
                             AlignLeft \<Rightarrow> rect_left (boundingClientRect (store (dom u) el)) - clientX
                           | AlignRight \<Rightarrow> clientX - rect_right (boundingClientRect (store (dom u) el))))
                      30)
         \<and> style (store (dom (resizeImage clientX al u)) el) ''height'' = CssText ''auto''
         \<and> (rect_width (boundingClientRect (store (dom u) el))
               + (case al of
                    AlignLeft \<Rightarrow> rect_left (boundingClientRect (store (dom u) el)) - clientX
                  | AlignRight \<Rightarrow> clientX - rect_right (boundingClientRect (store (dom u) el))) < 30
             \<longrightarrow> style (store (dom (resizeImage clientX al u)) el) ''width'' = CssPx 30)"
  using assms
  by (auto simp: resizeImage_def Let_def on_dom_fields style_setStyle split: align.splits)

lemma demo_dragging_facts:
  "isResizing demo_dragging" "imageEl (nodes demo_dragging) = Some demo_picture"
  by (simp_all add: demo_dragging_def mouseDownHandler_body_def new_closure_def Let_def
      demo_filled_facts)

lemma demo_dragging_rect:
  "boundingClientRect (store (dom demo_dragging) demo_picture) = demo_rect"
  by (simp add: demo_dragging_def mouseDownHandler_body_def new_closure_def Let_def
      store_ops demo_filled_def on_ui_fields on_dom_fields)

theorem resizeImage_sets_width_witness:
  "isResizing demo_dragging \<and> imageEl (nodes demo_dragging) = Some demo_picture
   \<and> style (store (dom (resizeImage 340 AlignRight demo_dragging)) demo_picture) ''width'' = CssPx 240
   \<and> style (store (dom (resizeImage 340 AlignRight demo_dragging)) demo_picture) ''height'' = CssText ''auto''
   \<and> style (store (dom (resizeImage 60 AlignLeft demo_dragging)) demo_picture) ''width'' = CssPx 240
   \<and> style (store (dom (resizeImage 290 AlignLeft demo_dragging)) demo_picture) ''width'' = CssPx 30"
  using resizeImage_sets_width [of demo_dragging demo_picture 340 AlignRight]
    resizeImage_sets_width [of demo_dragging demo_picture 60 AlignLeft]
    resizeImage_sets_width [of demo_dragging demo_picture 290 AlignLeft]
  by (simp add: demo_dragging_facts demo_dragging_rect demo_rect_def)


section \<open>fillImage and the ready event\<close>

lemma mp4_test_suffix: "mp4_test url' \<longleftrightarrow> suffix ''.mp4'' url'"
proof
  assume "mp4_test url'"
  then have "url' = take (length url' - 4) url' @ ''.mp4''"
    by (metis append_take_drop_id mp4_test_def)
  then show "suffix ''.mp4'' url'"
    by (metis suffixI)
next
  assume "suffix ''.mp4'' url'"
  then obtain p where "url' = p @ ''.mp4''"
    by (auto simp: suffix_def)
  then show "mp4_test url'"
    by (simp add: mp4_test_def)
qed

text \<open>
  Claim C6. The element that \<open>fillImage\<close> creates, and makes the displayed one, is a
  \<open>VIDEO\<close> exactly when the URL ends in \<open>.mp4\<close>; it then has \<open>autoplay\<close>, \<open>loop\<close>,
  \<open>muted\<close>, \<open>playsinline\<close> and \<open>controls\<close> set to \<open>true\<close>. For every other URL it is an
  \<open>IMG\<close> with \<open>loading\<close> set to \<open>lazy\<close> and \<open>decoding\<close> to \<open>async\<close>.
\<close>

theorem fillImage_element_by_extension:
  "imageEl (nodes (fillImage url' h w u)) = Some (fresh (dom u))
   \<and> (tagName (store (dom (fillImage url' h w u)) (fresh (dom u))) = ''VIDEO''
        \<longleftrightarrow> suffix ''.mp4'' url')
   \<and> (suffix ''.mp4'' url' \<longrightarrow>
        (\<forall>k \<in> set [''autoplay'', ''loop'', ''muted'', ''playsinline'', ''controls''].
           map_of (props (store (dom (fillImage url' h w u)) (fresh (dom u)))) k = Some (PBool True)))
   \<and> (\<not> suffix ''.mp4'' url' \<longrightarrow>
        tagName (store (dom (fillImage url' h w u)) (fresh (dom u))) = ''IMG''
        \<and> map_of (props (store (dom (fillImage url' h w u)) (fresh (dom u)))) ''loading''
            = Some (PStr ''lazy'')
        \<and> map_of (props (store (dom (fillImage url' h w u)) (fresh (dom u)))) ''decoding''
            = Some (PStr ''async''))"
  by (simp add: fillImage_fields fillImage_new media_tag_def media_attributes_def
      mp4_test_suffix [symmetric])

theorem fillImage_element_by_extension_witness:
  "suffix ''.mp4'' ''https://x/clip.mp4'' \<and> \<not> suffix ''.mp4'' ''https://x/y.png''
   \<and> tagName (store (dom (fillImage ''https://x/clip.mp4'' None None demo_ui)) (fresh (dom demo_ui))) = ''VIDEO''
   \<and> map_of (props (store (dom (fillImage ''https://x/clip.mp4'' None None demo_ui)) (fresh (dom demo_ui)))) ''muted'' = Some (PBool True)
   \<and> tagName (store (dom (fillImage ''https://x/y.png'' None None demo_ui)) (fresh (dom demo_ui))) = ''IMG''
   \<and> map_of (props (store (dom (fillImage ''https://x/y.png'' None None demo_ui)) (fresh (dom demo_ui)))) ''loading'' = Some (PStr ''lazy'')"
  using fillImage_element_by_extension [of "''https://x/clip.mp4''" None None demo_ui]
    fillImage_element_by_extension [of "''https://x/y.png''" None None demo_ui]
  by (simp add: mp4_test_suffix [symmetric] mp4_test_def)

lemma demo_ui_refs:
  "caption_node (nodes demo_ui) < fresh (dom demo_ui)"
  "imageContainer (nodes demo_ui) < fresh (dom demo_ui)"
  "\<not> readOnly demo_ui" "captionShown demo_ui"
  by (simp_all add: demo_ui_def Ui_new_fields captionShown_def demo_config_def)

lemma media_examples:
  "media_tag ''a.png'' = ''IMG''" "media_event ''a.png'' = ''load''"
  "media_tag ''https://x/y.png'' = ''IMG''" "media_event ''https://x/y.png'' = ''load''"
  by (simp_all add: media_tag_def media_event_def mp4_test_def)

lemma dispatch_ready:
  assumes "listeners (store (dom u) el) = [(ev, h1), (''error'', h2)]" "ev \<noteq> ''error''"
  shows "dispatchEvent el ev x u = snd (call h1 x u)"
  using assms by (simp add: dispatchEvent_def)

lemma set_classList_add: "set (classList_add cs [c]) = insert c (set cs)"
  by auto

lemma style_setStyle':
  "style (store (setStyle r k v d) x) k' =
     (if x = r \<and> k' = k then v else style (store d x) k')"
  by (simp add: setStyle_def store_upd)

lemma classList_toggleClass:
  "set (classList (store (toggleClass r c b d) x)) =
     (if x = r then (if b then insert c (set (classList (store d r)))
                     else set (classList (store d r)) - {c})
      else set (classList (store d x)))"
  by (auto simp: toggleClass_def store_upd classList_toggle_def)

lemma classList_addClass_set:
  "set (classList (store (addClass r c d) x)) =
     (if x = r then insert c (set (classList (store d r))) else set (classList (store d x)))"
  by (auto simp: addClass_def store_upd)

lemma toggleStatus_classes:
  "x = wrapper (nodes u) \<Longrightarrow>
   set (classList (store (dom (toggleStatus st u)) x)) =
     set (classList (store (dom u) x))
       - {''image-tool--empty'', ''image-tool--uploading'', ''image-tool--filled''}
       \<union> {''image-tool--'' @ UiState_value st}"
  by (cases st) (auto simp: toggleStatus_eq on_dom_fields classList_toggleClass)

lemma toggleStatus_keeps:
  "nodes (toggleStatus st u) = nodes u" "config (toggleStatus st u) = config u"
  "readOnly (toggleStatus st u) = readOnly u" "contentRatio (toggleStatus st u) = contentRatio u"
  "api (toggleStatus st u) = api u"
  "style (store (dom (toggleStatus st u)) x) = style (store (dom u) x)"
  "naturalWidth (store (dom (toggleStatus st u)) x) = naturalWidth (store (dom u) x)"
  "naturalHeight (store (dom (toggleStatus st u)) x) = naturalHeight (store (dom u) x)"
  "videoWidth (store (dom (toggleStatus st u)) x) = videoWidth (store (dom u) x)"
  "videoHeight (store (dom (toggleStatus st u)) x) = videoHeight (store (dom u) x)"
  "parentNode (store (dom (toggleStatus st u)) x) = parentNode (store (dom u) x)"
  "children (store (dom (toggleStatus st u)) x) = children (store (dom u) x)"
  "listeners (store (dom (toggleStatus st u)) x) = listeners (store (dom u) x)"
  by (simp_all add: toggleStatus_eq on_dom_fields keeps)

text \<open>What the body of \<open>imageLoadHandler\<close> does when there is a displayed element.\<close>

lemma imageLoadHandler_body_displayed:
  assumes "imageEl (nodes u) = Some el"
  shows "fst (imageLoadHandler_body tag w u) = Returned"
    and "imageEl (nodes (snd (imageLoadHandler_body tag w u))) = Some el"
    and "wrapper (nodes (snd (imageLoadHandler_body tag w u))) = wrapper (nodes u)"
    and "contentRatio (snd (imageLoadHandler_body tag w u)) =
           (if tag = ''VIDEO''
            then js_div (videoHeight (store (dom u) el)) (videoWidth (store (dom u) el))
            else js_div (naturalHeight (store (dom u) el)) (naturalWidth (store (dom u) el)))"
  using assms
  by (simp_all add: imageLoadHandler_body_def Let_def toggleStatus_keeps on_dom_fields keeps
      split: option.split)

lemma imageLoadHandler_body_status:
  assumes "imageEl (nodes u) = Some el"
  shows "''image-tool--filled'' \<in> set (classList (store (dom (snd (imageLoadHandler_body tag w u))) (wrapper (nodes u))))"
    and "''image-tool--empty'' \<notin> set (classList (store (dom (snd (imageLoadHandler_body tag w u))) (wrapper (nodes u))))"
    and "''image-tool--uploading'' \<notin> set (classList (store (dom (snd (imageLoadHandler_body tag w u))) (wrapper (nodes u))))"
  using assms
  by (simp_all add: imageLoadHandler_body_def Let_def toggleStatus_keeps on_dom_fields keeps
      classList_addClass_set toggleStatus_classes split: option.split)

lemma imageLoadHandler_body_style:
  assumes "imageEl (nodes u) = Some el"
  shows "style (store (dom (snd (imageLoadHandler_body tag w u))) el) ''width'' =
           (case w of
              None \<Rightarrow> style (store (dom u) el) ''width''
            | Some s \<Rightarrow> (case parseInt s of
                           None \<Rightarrow> style (store (dom u) el) ''width''
                         | Some n \<Rightarrow> if 0 < n then CssPx (of_int n)
                                      else style (store (dom u) el) ''width''))"
    and "style (store (dom (snd (imageLoadHandler_body tag w u))) el) ''height'' =
           (case w of
              None \<Rightarrow> style (store (dom u) el) ''height''
            | Some s \<Rightarrow> (case parseInt s of
                           None \<Rightarrow> style (store (dom u) el) ''height''
                         | Some n \<Rightarrow> if 0 < n then CssText ''auto''
                                      else style (store (dom u) el) ''height''))"
  using assms
  by (simp_all add: imageLoadHandler_body_def Let_def toggleStatus_keeps on_dom_fields keeps
      style_setStyle' split: option.split)

text \<open>
  Claim C5. Let \<open>el\<close> be the displayed element, carrying the ready listener and the error
  listener that \<open>fillImage\<close> bound, the ready listener having captured \<open>tag\<close> and the saved
  width \<open>w\<close>. When the browser fires the ready event on \<open>el\<close>: the wrapper has the class
  of the state \<open>filled\<close> and not those of \<open>empty\<close> and \<open>uploading\<close>; the stored ratio is
  the intrinsic height over the intrinsic width of \<open>el\<close> (video dimensions for a video,
  natural dimensions for an image); if \<open>w\<close> is present and \<open>parseInt\<close> gives a number
  \<open>n > 0\<close>, the \<open>width\<close> style of \<open>el\<close> is \<open>n\<close> pixels and its \<open>height\<close> style is
  \<open>auto\<close>; if \<open>w\<close> is absent, or parses to \<open>NaN\<close> or to a number that is not positive,
  both styles are as they were. In particular a saved width above 100 is restored as
  that many pixels.
\<close>

theorem media_ready_event:
  assumes "imageEl (nodes u) = Some el"
    and "listeners (store (dom u) el) =
           [(ev, (i, ImageLoadHandler tag w)), (''error'', (j, ImageErrorHandler url'))]"
    and "ev \<noteq> ''error''"
  shows "''image-tool--filled'' \<in> set (classList (store (dom (dispatchEvent el ev x u)) (wrapper (nodes u))))
    \<and> ''image-tool--empty'' \<notin> set (classList (store (dom (dispatchEvent el ev x u)) (wrapper (nodes u))))
    \<and> ''image-tool--uploading'' \<notin> set (classList (store (dom (dispatchEvent el ev x u)) (wrapper (nodes u))))
    \<and> contentRatio (dispatchEvent el ev x u) =
         (if tag = ''VIDEO''
          then js_div (videoHeight (store (dom u) el)) (videoWidth (store (dom u) el))
          else js_div (naturalHeight (store (dom u) el)) (naturalWidth (store (dom u) el)))
    \<and> (\<forall>s n. w = Some s \<and> parseInt s = Some n \<and> 0 < n \<longrightarrow>
          style (store (dom (dispatchEvent el ev x u)) el) ''width'' = CssPx (of_int n)
          \<and> style (store (dom (dispatchEvent el ev x u)) el) ''height'' = CssText ''auto'')
    \<and> (w = None \<or> (\<exists>s. w = Some s \<and> (parseInt s = None \<or> (\<exists>n. parseInt s = Some n \<and> n \<le> 0))) \<longrightarrow>
          style (store (dom (dispatchEvent el ev x u)) el) ''width'' = style (store (dom u) el) ''width''
          \<and> style (store (dom (dispatchEvent el ev x u)) el) ''height'' = style (store (dom u) el) ''height'')
    \<and> (\<forall>s n. w = Some s \<and> parseInt s = Some n \<and> 100 < n \<longrightarrow>
          style (store (dom (dispatchEvent el ev x u)) el) ''width'' = CssPx (of_int n)
          \<and> style (store (dom (dispatchEvent el ev x u)) el) ''height'' = CssText ''auto'')"
proof -
  have d: "dispatchEvent el ev x u = snd (imageLoadHandler_body tag w u)"
    using dispatch_ready [OF assms(2,3)] by (simp add: call_def)
  show ?thesis
    unfolding d
    using imageLoadHandler_body_status [OF assms(1), of tag w]
      imageLoadHandler_body_displayed(4) [OF assms(1), of tag w]
      imageLoadHandler_body_style [OF assms(1), of tag w]
    by auto
qed

lemma naturalSize_decoded:
  "naturalWidth (store (decoded r nw nh d) x) =
     (if x = r \<and> tagName (store d r) = ''IMG'' then Some nw else naturalWidth (store d x))"
  "naturalHeight (store (decoded r nw nh d) x) =
     (if x = r \<and> tagName (store d r) = ''IMG'' then Some nh else naturalHeight (store d x))"
  by (simp_all add: decoded_def store_upd)

lemma demo_loading_facts:
  "imageEl (nodes demo_loading) = Some (fresh (dom demo_ui))"
  "listeners (store (dom demo_loading) (fresh (dom demo_ui))) =
     [(''load'', (fresh (dom demo_ui) + 1, ImageLoadHandler ''IMG'' (Some ''250''))),
      (''error'', (fresh (dom demo_ui) + 2, ImageErrorHandler ''https://x/y.png''))]"
  "naturalWidth (store (dom demo_loading) (fresh (dom demo_ui))) = Some 800"
  "naturalHeight (store (dom demo_loading) (fresh (dom demo_ui))) = Some 400"
  by (simp_all add: demo_loading_def on_dom_fields fillImage_fields fillImage_new keeps
      naturalSize_decoded media_examples)

lemma parseInt_examples: "parseInt ''250'' = Some 250" "parseInt ''300'' = Some 300"
  by (simp_all add: parseInt_def isWhiteSpace_def isDigit_def digitVal_def)

theorem media_ready_event_witness:
  "imageEl (nodes demo_loading) = Some (fresh (dom demo_ui))
   \<and> ''load'' \<noteq> ''error'' \<and> parseInt ''250'' = Some 250
   \<and> ''image-tool--filled'' \<in> set (classList (store (dom (dispatchEvent (fresh (dom demo_ui)) ''load'' 0 demo_loading)) (wrapper (nodes demo_loading))))
   \<and> contentRatio (dispatchEvent (fresh (dom demo_ui)) ''load'' 0 demo_loading) = Num (1 / 2)
   \<and> style (store (dom (dispatchEvent (fresh (dom demo_ui)) ''load'' 0 demo_loading)) (fresh (dom demo_ui))) ''width'' = CssPx 250
   \<and> style (store (dom (dispatchEvent (fresh (dom demo_ui)) ''load'' 0 demo_loading)) (fresh (dom demo_ui))) ''height'' = CssText ''auto''"
  using media_ready_event [OF demo_loading_facts(1,2), of 0]
  by (simp add: demo_loading_facts parseInt_examples js_div_def)

text \<open>
  Claim C3 fails on the code. After \<open>fillImage('a.png', undefined, '300')\<close> and then
  \<open>fillImage('b.png')\<close> on a fresh \<open>Ui\<close>, the first element is no longer the displayed
  one, but it still carries its \<open>load\<close> and \<open>error\<close> listeners and is still in the
  document: the clean-up of \<open>fillImage\<close> runs after \<open>this.nodes.imageEl\<close> has been
  assigned the new element, which has no listener to remove. When the first picture
  then loads, its listener gives the second element the width saved for the first.
\<close>

theorem fillImage_leaves_old_listeners:
  "imageEl (nodes (fillImage ''a.png'' None (Some ''300'') demo_ui)) = Some (fresh (dom demo_ui))
   \<and> imageEl (nodes demo_refilled) = Some (fresh (dom demo_ui) + 11)
   \<and> listeners (store (dom demo_refilled) (fresh (dom demo_ui))) =
        [(''load'', (fresh (dom demo_ui) + 1, ImageLoadHandler ''IMG'' (Some ''300''))),
         (''error'', (fresh (dom demo_ui) + 2, ImageErrorHandler ''a.png''))]
   \<and> parentNode (store (dom demo_refilled) (fresh (dom demo_ui))) = Some (fresh (dom demo_ui) + 4)
   \<and> style (store (dom (dispatchEvent (fresh (dom demo_ui)) ''load'' 0 demo_refilled))
              (fresh (dom demo_ui) + 11)) ''width'' = CssPx 300"
proof -
  define u1 where "u1 = fillImage ''a.png'' None (Some ''300'') demo_ui"
  have r: "demo_refilled = fillImage ''b.png'' None None u1"
    by (simp add: demo_refilled_def u1_def)
  have f1: "fresh (dom u1) = fresh (dom demo_ui) + 11"
    by (simp add: u1_def fillImage_fresh demo_ui_refs)
  have n1: "imageEl (nodes u1) = Some (fresh (dom demo_ui))"
    by (simp add: u1_def fillImage_fields)
  have n2: "imageEl (nodes demo_refilled) = Some (fresh (dom demo_ui) + 11)"
    by (simp add: r fillImage_fields f1)
  have l: "listeners (store (dom demo_refilled) (fresh (dom demo_ui))) =
        [(''load'', (fresh (dom demo_ui) + 1, ImageLoadHandler ''IMG'' (Some ''300''))),
         (''error'', (fresh (dom demo_ui) + 2, ImageErrorHandler ''a.png''))]"
    by (simp add: r fillImage_old f1) (simp add: u1_def fillImage_new media_examples)
  have c: "caption_node (nodes u1) = caption_node (nodes demo_ui)"
    by (simp add: u1_def fillImage_fields)
  have p: "parentNode (store (dom demo_refilled) (fresh (dom demo_ui))) = Some (fresh (dom demo_ui) + 4)"
    using demo_ui_refs(1)
    by (simp add: r fillImage_old f1 c) (simp add: u1_def fillImage_new)
  have d: "dispatchEvent (fresh (dom demo_ui)) ''load'' 0 demo_refilled =
           snd (imageLoadHandler_body ''IMG'' (Some ''300'') demo_refilled)"
    using dispatch_ready [OF l] by (simp add: call_def)
  have s: "style (store (dom (dispatchEvent (fresh (dom demo_ui)) ''load'' 0 demo_refilled))
              (fresh (dom demo_ui) + 11)) ''width'' = CssPx 300"
    unfolding d by (simp add: imageLoadHandler_body_style [OF n2] parseInt_examples)
  from n1 n2 l p s show ?thesis
    by (simp add: u1_def)
qed


section \<open>The caption\<close>




section \<open>Upload failures\<close>

lemma hidePreloader_effect:
  "nodes (hidePreloader u) = nodes u" "readOnly (hidePreloader u) = readOnly u"
  "x = wrapper (nodes u) \<Longrightarrow>
   set (classList (store (dom (hidePreloader u)) x)) =
     set (classList (store (dom u) x))
       - {''image-tool--empty'', ''image-tool--uploading'', ''image-tool--filled''}
       \<union> {''image-tool--empty''}"
  "style (store (dom (hidePreloader u)) x) k =
     (if x = imagePreloader (nodes u) \<and> k = ''backgroundImage'' then CssText []
      else style (store (dom u) x) k)"
  "parentNode (store (dom (hidePreloader u)) x) = parentNode (store (dom u) x)"
  "children (store (dom (hidePreloader u)) x) = children (store (dom u) x)"
  by (simp_all add: hidePreloader_def toggleStatus_keeps toggleStatus_classes on_dom_fields keeps
      style_setStyle')

lemma uploadingFailed_effect:
  "notifications (uploadingFailed e t) =
     notifications t @ [(i18n_t (api (ui t)) uploadFailedMessage, ''error'')]"
  "data (uploadingFailed e t) = data t"
  "ui (uploadingFailed e t) = addFileButton (hidePreloader (ui t))"
  by (simp_all add: uploadingFailed_def Let_def on_ui_fields uploadFailedMessage_def)

text \<open>
  Claim C8, amended. A response whose success flag is falsy (0) or whose file is missing
  is handled by \<open>uploadingFailed\<close>, as a transport error is. \<open>uploadingFailed\<close> shows
  exactly one notification of style \<open>error\<close>, leaves the wrapper with the class of the state
  \<open>empty\<close> and without those of \<open>uploading\<close> and \<open>filled\<close>, clears the background image of
  the preloader and leaves the block data as it was. Unless the block is read-only, the
  upload button is appended to the wrapper again, as its last child; in a read-only
  block the button stays where it was.
\<close>

theorem upload_failure_restores_empty_state:
  "(success response = 0 \<or> response_file response = None \<longrightarrow>
      onUpload response t = uploadingFailed ''incorrect response: '' t)
   \<and> notifications (uploadingFailed errorText t) =
       notifications t @ [(i18n_t (api (ui t)) uploadFailedMessage, ''error'')]
   \<and> ''image-tool--empty''
       \<in> set (classList (store (dom (ui (uploadingFailed errorText t))) (wrapper (nodes (ui t)))))
   \<and> ''image-tool--uploading''
       \<notin> set (classList (store (dom (ui (uploadingFailed errorText t))) (wrapper (nodes (ui t)))))
   \<and> ''image-tool--filled''
       \<notin> set (classList (store (dom (ui (uploadingFailed errorText t))) (wrapper (nodes (ui t)))))
   \<and> style (store (dom (ui (uploadingFailed errorText t))) (imagePreloader (nodes (ui t))))
        ''backgroundImage'' = CssText []
   \<and> (\<not> readOnly (ui t) \<longrightarrow>
        parentNode (store (dom (ui (uploadingFailed errorText t))) (fileButton (nodes (ui t))))
          = Some (wrapper (nodes (ui t)))
        \<and> last (children (store (dom (ui (uploadingFailed errorText t))) (wrapper (nodes (ui t)))))
          = fileButton (nodes (ui t)))
   \<and> (readOnly (ui t) \<longrightarrow>
        parentNode (store (dom (ui (uploadingFailed errorText t))) (fileButton (nodes (ui t))))
          = parentNode (store (dom (ui t)) (fileButton (nodes (ui t)))))
   \<and> data (uploadingFailed errorText t) = data t"
  by (auto simp: onUpload_def uploadingFailed_effect addFileButton_def hidePreloader_effect
      on_dom_fields keeps parentNode_appendChild children_appendChild)

lemma Ui_new_button_readonly:
  "parentNode (store (dom (Ui_new a cfg True d0)) (Suc (Suc (fresh d0)))) = None"
  by (simp add: Ui_new_def createFileButton_eq make_def Let_def lookup)

lemma demo_readonly_facts:
  "readOnly (ui demo_readonly)"
  "fileButton (nodes (ui demo_readonly)) = fresh empty_document + 2"
  "parentNode (store (dom (ui demo_readonly)) (Suc (Suc (fresh empty_document)))) = None"
  by (simp_all add: demo_readonly_def ImageTool_new_block)
     (simp add: ImageTool_new_def set_data_def set_image_def Let_def on_ui_fields empty_data_def
        fillCaption_def on_dom_fields keeps Ui_new_button_readonly)

lemma demo_tool_file: "file' (data demo_tool) = Some \<lparr>url = Some [], extra = []\<rparr>"
  by (simp add: demo_tool_def ImageTool_new_def set_data_def set_image_def Let_def on_ui_fields
      empty_data_def)

lemma uploadingFailed_readonly:
  "readOnly (ui t) \<Longrightarrow>
   parentNode (store (dom (ui (uploadingFailed e t))) x) = parentNode (store (dom (ui t)) x)"
  by (simp add: uploadingFailed_effect addFileButton_def hidePreloader_effect)

text \<open>
  Claim C8, as stated, fails twice. A response with the success flag 2 and a file is
  not a failure for \<open>onUpload\<close>, which tests the flag for truthiness: no notification is
  shown and the stored file is replaced. And in a read-only block \<open>uploadingFailed\<close> does
  not append the upload button, which stays out of the document.
\<close>

theorem upload_failure_counterexample:
  "success demo_truthy_response \<noteq> 1
   \<and> notifications (onUpload demo_truthy_response demo_tool) = notifications demo_tool
   \<and> file' (data demo_tool) = Some \<lparr>url = Some [], extra = []\<rparr>
   \<and> file' (data (onUpload demo_truthy_response demo_tool))
       = Some \<lparr>url = Some ''https://x/y.png'', extra = []\<rparr>
   \<and> readOnly (ui demo_readonly)
   \<and> parentNode (store (dom (ui demo_readonly)) (fileButton (nodes (ui demo_readonly)))) = None
   \<and> parentNode (store (dom (ui (uploadingFailed ''timeout'' demo_readonly)))
        (fileButton (nodes (ui demo_readonly)))) = None"
  by (simp add: demo_truthy_response_def onUpload_def set_image_url demo_tool_file
      demo_readonly_facts uploadingFailed_readonly)

lemma demo_filled_block:
  "\<not> readOnly (ui demo_filled)" "api (ui demo_filled) = demo_api"
  by (simp_all add: demo_filled_def on_ui_fields on_dom_fields onUpload_def demo_response_def
      set_image_url fillImage_fields demo_tool_def ImageTool_new_block)

theorem upload_failure_restores_empty_state_witness:
  "success (demo_response\<lparr>success := 0\<rparr>) = 0
   \<and> notifications (onUpload (demo_response\<lparr>success := 0\<rparr>) demo_filled)
       = notifications demo_filled @ [(uploadFailedMessage, ''error'')]
   \<and> \<not> readOnly (ui demo_filled)
   \<and> parentNode (store (dom (ui (onUpload (demo_response\<lparr>success := 0\<rparr>) demo_filled)))
        (fileButton (nodes (ui demo_filled)))) = Some (wrapper (nodes (ui demo_filled)))
   \<and> ''image-tool--empty''
       \<in> set (classList (store (dom (ui (onUpload (demo_response\<lparr>success := 0\<rparr>) demo_filled)))
                 (wrapper (nodes (ui demo_filled)))))
   \<and> data (onUpload (demo_response\<lparr>success := 0\<rparr>) demo_filled) = data demo_filled"
  using upload_failure_restores_empty_state [of "demo_response\<lparr>success := 0\<rparr>" demo_filled
      "''incorrect response: ''"]
  by (simp add: demo_filled_block demo_api_def)

end
